theory Spec2Isabelle
  imports Main
begin

text \<open>
  Node-group and cluster defaulting of eksctl (\<open>pkg/apis/eksctl.io/v1alpha5/defaults.go\<close>):
  the cascade of field defaults, the sizing of the kubelet reservations for cpu, memory and
  ephemeral storage from the facts of an instance type, and their merge into the kubelet
  configuration document.
\<close>

section \<open>Data model of pkg/apis/eksctl.io/v1alpha5\<close>

text \<open>
  The Go type declarations (types.go) and the small helpers of the package are not part of
  the files under verification; they are written here the way \<open>defaults.go\<close> uses them.
  A Go pointer that may be nil is an \<open>option\<close>; a nil map is \<open>None\<close>, an allocated map a
  partial function.
\<close>

datatype error = Error string

text \<open>
  Modelled from the spec: a tri-state flag is a \<open>*bool\<close>, unset when nil. \<open>Enabled()\<close> and
  \<open>Disabled()\<close> return pointers to true and false; \<open>IsEnabled\<close> and \<open>IsDisabled\<close> hold
  only of a flag that is explicitly set.
\<close>

definition Enabled :: "bool option" where
  "Enabled = Some True"

definition Disabled :: "bool option" where
  "Disabled = Some False"

definition IsEnabled :: "bool option \<Rightarrow> bool" where
  "IsEnabled v = (case v of None \<Rightarrow> False | Some b \<Rightarrow> b)"

definition IsDisabled :: "bool option \<Rightarrow> bool" where
  "IsDisabled v = (case v of None \<Rightarrow> False | Some b \<Rightarrow> \<not> b)"

text \<open>
  Modelled from the spec: \<open>IsSetAndNonEmptyString\<close> holds of a \<open>*string\<close> that is not nil
  and does not point to the empty string.
\<close>

definition IsSetAndNonEmptyString :: "string option \<Rightarrow> bool" where
  "IsSetAndNonEmptyString s = (case s of None \<Rightarrow> False | Some v \<Rightarrow> v \<noteq> [])"

text \<open>
  The package constants that \<open>defaults.go\<close> reads are declared elsewhere; every function
  below takes them as one record.
\<close>

record Consts =
  DefaultNodeType :: string
  DefaultNodeImageFamily :: string
  NodeImageFamilyAmazonLinux2 :: string
  DefaultNodeVolumeType :: string
  DefaultNodeSSHPublicKeyPath :: string
  ClusterNameLabel :: string
  NodeGroupNameLabel :: string
  NodeGroupNameTag :: string
  NodeGroupTypeTag :: string
  NodeGroupTypeManaged :: string
  NamespaceDefault :: string
  SupportedCloudWatchClusterLogTypes :: "string list"

text \<open>
  \<open>InlineDocument\<close> is \<open>map[string]interface{}\<close>. The values an \<open>interface{}\<close> holds are
  a JSON-like tree; \<open>IMap\<close> is the dynamic type \<open>map[string]interface{}\<close>, the only one the
  type assertion in \<open>getKubeReserved\<close> accepts.
\<close>

datatype ival =
    IString string
  | INumber int
  | IBool bool
  | INull
  | IList "ival list"
  | IMap "string \<Rightarrow> ival option"

type_synonym InlineDocument = "string \<Rightarrow> ival option"

record ClusterMeta =
  Name :: string
  Region :: string

record NodeGroupSGs =
  AttachIDs :: "string list"
  WithLocal :: "bool option"
  WithShared :: "bool option"

record NodeGroupSSH =
  Allow :: "bool option"
  PublicKeyPath :: "string option"
  PublicKey :: "string option"
  PublicKeyName :: "string option"

record NodeGroupIAMAddonPolicies =
  ImageBuilder :: "bool option"
  AutoScaler :: "bool option"
  ExternalDNS :: "bool option"
  CertManager :: "bool option"
  ALBIngress :: "bool option"
  XRay :: "bool option"
  CloudWatch :: "bool option"
  EBS :: "bool option"
  FSX :: "bool option"
  EFS :: "bool option"

record NodeGroupIAM =
  WithAddonPolicies :: NodeGroupIAMAddonPolicies

record NodeGroupInstancesDistribution =
  InstanceTypes :: "string list"

record NodeGroup =
  Name :: string
  InstanceType :: string
  AMIFamily :: string
  InstancesDistribution :: "NodeGroupInstancesDistribution option"
  SecurityGroups :: "NodeGroupSGs option"
  SSH :: "NodeGroupSSH option"
  VolumeType :: "string option"
  IAM :: "NodeGroupIAM option"
  Labels :: "(string \<Rightarrow> string option) option"
  KubeletExtraConfig :: "InlineDocument option"

record ScalingConfig =
  DesiredCapacity :: "int option"
  MinSize :: "int option"
  MaxSize :: "int option"

text \<open>
  Modelled from the spec: section 3 lists a kubelet configuration document among the fields
  of both node-group variants, so \<open>ManagedNodeGroup\<close> carries one here, although
  \<open>SetManagedNodeGroupDefaults\<close> reads and writes none.
\<close>

record ManagedNodeGroup =
  Name :: string
  AMIFamily :: string
  InstanceType :: string
  ScalingConfig :: "ScalingConfig option"
  SSH :: "NodeGroupSSH option"
  IAM :: "NodeGroupIAM option"
  Labels :: "(string \<Rightarrow> string option) option"
  Tags :: "(string \<Rightarrow> string option) option"
  KubeletExtraConfig :: "InlineDocument option"

record ClusterIAMServiceAccount =
  Namespace :: string

record ClusterIAM =
  WithOIDC :: "bool option"
  ServiceAccounts :: "ClusterIAMServiceAccount list"

record ClusterCloudWatchLogging =
  EnableTypes :: "string list"

record ClusterCloudWatch =
  ClusterLogging :: "ClusterCloudWatchLogging option"

record ClusterConfig =
  IAM :: "ClusterIAM option"
  CloudWatch :: "ClusterCloudWatch option"

text \<open>
  Modelled from the spec: \<open>HasMixedInstances\<close> holds when the group declares a
  mixed-instance policy, that is an instances distribution with at least one instance type.
\<close>

definition HasMixedInstances :: "NodeGroup \<Rightarrow> bool" where
  "HasMixedInstances ng =
     (case NodeGroup.InstancesDistribution ng of
        None \<Rightarrow> False
      | Some d \<Rightarrow> InstanceTypes d \<noteq> [])"

text \<open>
  Modelled from the spec: the expansion of the log types depends on the enable-list alone,
  so \<open>HasClusterCloudWatchLogging\<close> is the guard of that read: it holds when the CloudWatch
  section and its cluster-logging section are both present.
\<close>

definition HasClusterCloudWatchLogging :: "ClusterConfig \<Rightarrow> bool" where
  "HasClusterCloudWatchLogging cfg =
     (case ClusterConfig.CloudWatch cfg of
        None \<Rightarrow> False
      | Some cw \<Rightarrow> ClusterLogging cw \<noteq> None)"

text \<open>
  Modelled from the spec (4.1.1): \<open>countEnabledFields\<close> counts the key fields that are
  non-empty: not nil and not the empty string.
\<close>

fun countEnabledFields :: "string option list \<Rightarrow> nat" where
  "countEnabledFields [] = 0"
| "countEnabledFields (f # fs) =
     (if IsSetAndNonEmptyString f then Suc (countEnabledFields fs) else countEnabledFields fs)"

section \<open>Cluster defaults\<close>

definition SetClusterConfigDefaults :: "Consts \<Rightarrow> ClusterConfig \<Rightarrow> ClusterConfig" where
  "SetClusterConfigDefaults c cfg =
     (let iam0 = (case ClusterConfig.IAM cfg of
                    None \<Rightarrow> \<lparr>WithOIDC = None, ServiceAccounts = []\<rparr>
                  | Some i \<Rightarrow> i);
          iam1 = (if WithOIDC iam0 = None then iam0\<lparr>WithOIDC := Disabled\<rparr> else iam0);
          iam2 = iam1\<lparr>ServiceAccounts :=
                   map (\<lambda>sa. if Namespace sa = [] then sa\<lparr>Namespace := NamespaceDefault c\<rparr> else sa)
                       (ServiceAccounts iam1)\<rparr>;
          cfg1 = cfg\<lparr>ClusterConfig.IAM := Some iam2\<rparr>
      in if HasClusterCloudWatchLogging cfg1
         then (case ClusterConfig.CloudWatch cfg1 of
                 None \<Rightarrow> cfg1
               | Some cw \<Rightarrow>
                   (case ClusterLogging cw of
                      None \<Rightarrow> cfg1
                    | Some cl \<Rightarrow>
                        if length (EnableTypes cl) = 1
                           \<and> (hd (EnableTypes cl) = ''all'' \<or> hd (EnableTypes cl) = ''*'')
                        then cfg1\<lparr>ClusterConfig.CloudWatch :=
                               Some (cw\<lparr>ClusterLogging :=
                                 Some (cl\<lparr>EnableTypes := SupportedCloudWatchClusterLogTypes c\<rparr>)\<rparr>)\<rparr>
                        else cfg1))
         else cfg1)"

section \<open>SSH and IAM defaults\<close>

definition setSSHDefaults :: "Consts \<Rightarrow> NodeGroupSSH \<Rightarrow> NodeGroupSSH" where
  "setSSHDefaults c sshConfig =
     (let numSSHFlagsEnabled =
            countEnabledFields [PublicKeyName sshConfig, PublicKeyPath sshConfig, PublicKey sshConfig]
      in if numSSHFlagsEnabled = 0
         then (if IsEnabled (Allow sshConfig)
               then sshConfig\<lparr>PublicKeyPath := Some (DefaultNodeSSHPublicKeyPath c)\<rparr>
               else sshConfig\<lparr>Allow := Disabled\<rparr>)
         else if \<not> IsDisabled (Allow sshConfig)
         then sshConfig\<lparr>Allow := Enabled\<rparr>
         else sshConfig)"

text \<open>
  Each of the ten statements of \<open>setIAMDefaults\<close> sets one add-on policy to
  \<open>Disabled()\<close> when it is nil; \<open>dflt\<close> is that statement on one flag.
\<close>

definition dflt :: "bool option \<Rightarrow> bool option" where
  "dflt v = (if v = None then Disabled else v)"

definition setIAMDefaults :: "NodeGroupIAM \<Rightarrow> NodeGroupIAM" where
  "setIAMDefaults iamConfig =
     iamConfig\<lparr>WithAddonPolicies :=
       (let p = WithAddonPolicies iamConfig
        in p\<lparr>ImageBuilder := dflt (ImageBuilder p),
             AutoScaler := dflt (AutoScaler p),
             ExternalDNS := dflt (ExternalDNS p),
             CertManager := dflt (CertManager p),
             ALBIngress := dflt (ALBIngress p),
             XRay := dflt (XRay p),
             NodeGroupIAMAddonPolicies.CloudWatch := dflt (NodeGroupIAMAddonPolicies.CloudWatch p),
             EBS := dflt (EBS p),
             FSX := dflt (FSX p),
             EFS := dflt (EFS p)\<rparr>)\<rparr>"

definition setDefaultNodeLabels ::
  "Consts \<Rightarrow> (string \<Rightarrow> string option) \<Rightarrow> string \<Rightarrow> string \<Rightarrow> (string \<Rightarrow> string option)" where
  "setDefaultNodeLabels c labels clusterName nodeGroupName =
     (labels(ClusterNameLabel c \<mapsto> clusterName))(NodeGroupNameLabel c \<mapsto> nodeGroupName)"

section \<open>Floating-point arithmetic and number formatting\<close>

text \<open>
  The reservation formulas compute in Go's \<open>float64\<close> and print through \<open>strconv\<close> and
  \<open>fmt\<close>. A finite binary floating-point number is kept as \<open>Dy m e\<close>, denoting
  \<open>m * 2 ^ e\<close>, with \<open>m\<close> odd or the number zero. Every arithmetic operation computes
  the exact result and rounds it to the nearest number of 53 significant bits, ties to the
  even mantissa, each operation on its own (no fused multiply-add). The exponent range, the
  infinities, NaN and the sign of zero are not represented: the values on the paths below are
  zero or lie between \<open>2 ^ - 10\<close> and \<open>2 ^ 64\<close> in magnitude, and a negative zero never
  reaches a formatting call.
\<close>

datatype dyadic = Dy int int

function normalize :: "int \<Rightarrow> int \<Rightarrow> dyadic" where
  "normalize m e =
     (if m = 0 then Dy 0 0
      else if even m then normalize (m div 2) (e + 1)
      else Dy m e)"
  by pat_completeness auto
termination
  by (relation "measure (\<lambda>(m, e). nat \<bar>m\<bar>)") auto

text \<open>\<open>ndigits b n\<close> is the number of digits of \<open>n\<close> in base \<open>b\<close>.\<close>

function ndigits :: "int \<Rightarrow> int \<Rightarrow> int" where
  "ndigits b n = (if n \<le> 0 \<or> b < 2 then 0 else ndigits b (n div b) + 1)"
  by pat_completeness auto
termination
  by (relation "measure (\<lambda>(b, n). nat n)") (auto simp: nat_less_iff intro: int_div_less_self)

text \<open>\<open>ilog b n d\<close> is the integer part of the base-\<open>b\<close> logarithm of \<open>n / d\<close>, for positive \<open>n\<close> and \<open>d\<close>.\<close>

definition ilog :: "int \<Rightarrow> int \<Rightarrow> int \<Rightarrow> int" where
  "ilog b n d =
     (let e0 = ndigits b n - ndigits b d
      in if (if 0 \<le> e0 then d * b ^ nat e0 \<le> n else d \<le> n * b ^ nat (- e0))
         then e0 else e0 - 1)"

text \<open>\<open>rne n d\<close> is \<open>n / d\<close> rounded to the nearest integer, a tie to the even one (\<open>d\<close> positive).\<close>

definition rne :: "int \<Rightarrow> int \<Rightarrow> int" where
  "rne n d =
     (let q = n div d; r = n mod d
      in if 2 * r < d then q
         else if d < 2 * r then q + 1
         else if even q then q else q + 1)"

text \<open>\<open>round_rat p n d\<close> is the number of \<open>p\<close> significant bits nearest to \<open>n / d\<close>.\<close>

definition round_rat :: "nat \<Rightarrow> int \<Rightarrow> int \<Rightarrow> dyadic" where
  "round_rat p n d =
     (if n = 0 then Dy 0 0
      else let s = ilog 2 \<bar>n\<bar> d - (int p - 1)
           in normalize (if 0 \<le> s then rne n (d * 2 ^ nat s) else rne (n * 2 ^ nat (- s)) d) s)"

fun round_dy :: "nat \<Rightarrow> dyadic \<Rightarrow> dyadic" where
  "round_dy p (Dy m e) =
     (if 0 \<le> e then round_rat p (m * 2 ^ nat e) 1 else round_rat p m (2 ^ nat (- e)))"

fun fmul :: "dyadic \<Rightarrow> dyadic \<Rightarrow> dyadic" where
  "fmul (Dy m1 e1) (Dy m2 e2) = round_dy 53 (Dy (m1 * m2) (e1 + e2))"

fun fadd :: "dyadic \<Rightarrow> dyadic \<Rightarrow> dyadic" where
  "fadd (Dy m1 e1) (Dy m2 e2) =
     (let e = min e1 e2
      in round_dy 53 (Dy (m1 * 2 ^ nat (e1 - e) + m2 * 2 ^ nat (e2 - e)) e))"

fun fsub :: "dyadic \<Rightarrow> dyadic \<Rightarrow> dyadic" where
  "fsub (Dy m1 e1) (Dy m2 e2) =
     (let e = min e1 e2
      in round_dy 53 (Dy (m1 * 2 ^ nat (e1 - e) - m2 * 2 ^ nat (e2 - e)) e))"

text \<open>Division is only ever by the non-zero constants 1024.0 and 16.0.\<close>

fun fdiv :: "dyadic \<Rightarrow> dyadic \<Rightarrow> dyadic" where
  "fdiv (Dy m1 e1) (Dy m2 e2) =
     (let k = e1 - e2; n = (if m2 < 0 then - m1 else m1); d = \<bar>m2\<bar>
      in if 0 \<le> k then round_rat 53 (n * 2 ^ nat k) d else round_rat 53 n (d * 2 ^ nat (- k)))"

fun fle :: "dyadic \<Rightarrow> dyadic \<Rightarrow> bool" where
  "fle (Dy m1 e1) (Dy m2 e2) =
     (let e = min e1 e2 in m1 * 2 ^ nat (e1 - e) \<le> m2 * 2 ^ nat (e2 - e))"

text \<open>The conversion \<open>float64(n)\<close> of an integer, and a decimal constant \<open>n / d\<close> of the source.\<close>

definition float64_of_int :: "int \<Rightarrow> dyadic" where
  "float64_of_int n = round_rat 53 n 1"

definition float64_lit :: "int \<Rightarrow> int \<Rightarrow> dyadic" where
  "float64_lit n d = round_rat 53 n d"

text \<open>\<open>math.Max\<close> and \<open>math.Min\<close> on finite numbers.\<close>

definition math_Max :: "dyadic \<Rightarrow> dyadic \<Rightarrow> dyadic" where
  "math_Max x y = (if \<not> fle x y then x else y)"

definition math_Min :: "dyadic \<Rightarrow> dyadic \<Rightarrow> dyadic" where
  "math_Min x y = (if \<not> fle y x then x else y)"

text \<open>
  A decimal numeral as \<open>strconv\<close> writes and reads it: \<open>Decimal c k\<close> denotes
  \<open>c * 10 ^ k\<close>. \<open>Sprintf_2f\<close> is \<open>fmt.Sprintf("%.2f", f)\<close>: the exact value rounded to
  hundredths, a tie to the even digit. \<open>ParseFloat\<close> is \<open>strconv.ParseFloat(s, 64)\<close> on
  such a numeral: the nearest \<open>float64\<close>; it reports no error on the text that
  \<open>Sprintf_2f\<close> writes.
\<close>

datatype decimal = Decimal int int

fun Sprintf_2f :: "dyadic \<Rightarrow> decimal" where
  "Sprintf_2f (Dy m e) =
     Decimal (if 0 \<le> e then m * 2 ^ nat e * 100 else rne (m * 100) (2 ^ nat (- e))) (- 2)"

fun ParseFloat :: "decimal \<Rightarrow> error + dyadic" where
  "ParseFloat (Decimal c k) =
     Inr (if 0 \<le> k then round_rat 53 (c * 10 ^ nat k) 1 else round_rat 53 c (10 ^ nat (- k)))"

text \<open>
  \<open>strconv.FormatFloat(f, 'f', -1, bitSize)\<close> converts \<open>f\<close> to \<open>bitSize\<close> bits and prints
  the decimal numeral with the fewest significant digits that reads back as the same number,
  the nearest to it when several do. \<open>digits_at p n\<close> tries \<open>n\<close> significant digits: the
  two \<open>n\<close>-digit numerals around the number are the only ones that can be nearest.
\<close>

definition roundtrips :: "nat \<Rightarrow> dyadic \<Rightarrow> int \<Rightarrow> int \<Rightarrow> bool" where
  "roundtrips p x c k =
     ((if 0 \<le> k then round_rat p (c * 10 ^ nat k) 1 else round_rat p c (10 ^ nat (- k))) = x)"

definition digits_at :: "nat \<Rightarrow> nat \<Rightarrow> int \<Rightarrow> int \<Rightarrow> bool \<times> decimal" where
  "digits_at p n num den =
     (let k = ilog 10 num den - (int n - 1);
          num' = (if 0 \<le> k then num else num * 10 ^ nat (- k));
          den' = (if 0 \<le> k then den * 10 ^ nat k else den);
          lo = num' div den';
          r = num' mod den';
          hi = lo + 1;
          x = round_rat p num den;
          nearest = (if 2 * r < den' then lo else if den' < 2 * r then hi
                     else if even lo then lo else hi)
      in if r = 0 then (True, Decimal lo k)
         else if roundtrips p x lo k \<and> roundtrips p x hi k then (True, Decimal nearest k)
         else if roundtrips p x lo k then (True, Decimal lo k)
         else if roundtrips p x hi k then (True, Decimal hi k)
         else (False, Decimal nearest k))"

fun shortest :: "nat \<Rightarrow> nat \<Rightarrow> nat \<Rightarrow> int \<Rightarrow> int \<Rightarrow> decimal" where
  "shortest 0 p n num den = snd (digits_at p n num den)"
| "shortest (Suc fuel) p n num den =
     (if fst (digits_at p n num den) then snd (digits_at p n num den)
      else shortest fuel p (Suc n) num den)"

function show_nat :: "int \<Rightarrow> string" where
  "show_nat n =
     (if n < 10 then [char_of (48 + n)]
      else show_nat (n div 10) @ [char_of (48 + n mod 10)])"
  by pat_completeness auto
termination
  by (relation "measure nat") (auto intro: int_div_less_self)

function strip_zeros :: "int \<Rightarrow> int \<Rightarrow> decimal" where
  "strip_zeros c k =
     (if c \<noteq> 0 \<and> c mod 10 = 0 then strip_zeros (c div 10) (k + 1) else Decimal c k)"
  by pat_completeness auto
termination
  by (relation "measure (\<lambda>(c, k). nat \<bar>c\<bar>)") auto

fun show_decimal :: "decimal \<Rightarrow> string" where
  "show_decimal (Decimal c k) =
     (if c < 0 then ''-'' else []) @
     (if 0 \<le> k then show_nat \<bar>c\<bar> @ replicate (if c = 0 then 0 else nat k) (CHR ''0'')
      else let f = nat (- k); ip = \<bar>c\<bar> div 10 ^ f; fp = \<bar>c\<bar> mod 10 ^ f; fs = show_nat fp
           in show_nat ip @ ''.'' @ replicate (f - length fs) (CHR ''0'') @ fs)"

definition FormatFloat :: "dyadic \<Rightarrow> nat \<Rightarrow> string" where
  "FormatFloat f bitSize =
     (let p = (if bitSize = 32 then 24 else 53)
      in case round_dy p f of Dy m e \<Rightarrow>
           if m = 0 then ''0''
           else (if m < 0 then ''-'' else []) @
                (case (if 0 \<le> e then shortest 20 p 1 (\<bar>m\<bar> * 2 ^ nat e) 1
                       else shortest 20 p 1 \<bar>m\<bar> (2 ^ nat (- e))) of
                   Decimal c k \<Rightarrow> show_decimal (strip_zeros c k)))"

section \<open>Instance type facts\<close>

text \<open>
  Modelled from the spec: \<open>ec2.InstanceTypeInfo\<close> is a type of the AWS SDK; section 3
  lists the facts this package reads from it (default vCPU count, memory size in MiB,
  instance-storage support and total instance-storage size in GB). The SDK's pointer fields
  are taken as populated, and the \<open>int64\<close> values are integers: the source does no integer
  arithmetic on them. \<open>getInstanceTypeOutput\<close> opens a session and calls the EC2 service; it
  is the external provider, a parameter \<open>prov\<close> of everything below that answers for an
  instance type and a cluster with an error or an output. Its answers are fixed: asked again
  for the same instance type and cluster, it answers the same.
\<close>

record InstanceTypeInfo =
  DefaultVCpus :: int
  SizeInMiB :: int
  InstanceStorageSupported :: bool
  TotalSizeInGB :: int

record DescribeInstanceTypesOutput =
  InstanceTypes :: "InstanceTypeInfo list"

type_synonym provider = "string \<Rightarrow> ClusterMeta \<Rightarrow> error + DescribeInstanceTypesOutput"

definition getInstanceTypeInfo :: "provider \<Rightarrow> string \<Rightarrow> ClusterMeta \<Rightarrow> error + InstanceTypeInfo" where
  "getInstanceTypeInfo prov it meta =
     (case prov it meta of
        Inl err \<Rightarrow> Inl err
      | Inr descInstTypeOutput \<Rightarrow>
          (case DescribeInstanceTypesOutput.InstanceTypes descInstTypeOutput of
             [] \<Rightarrow> Inl (Error (''No info found for instance type: '' @ it))
           | info # _ \<Rightarrow> Inr info))"

section \<open>Reservation calculator\<close>

definition cpuAllocations :: "int \<Rightarrow> string option" where
  "cpuAllocations =
     map_of [(1, ''60m''), (2, ''100m''), (4, ''140m''), (8, ''180m''), (16, ''260m''),
             (32, ''420m''), (48, ''580m''), (64, ''740m''), (96, ''1040m'')]"

definition getInstanceTypeCores :: "provider \<Rightarrow> string \<Rightarrow> ClusterMeta \<Rightarrow> error + int" where
  "getInstanceTypeCores prov it meta =
     (case getInstanceTypeInfo prov it meta of
        Inl err \<Rightarrow> Inl err
      | Inr instTypeInfos \<Rightarrow> Inr (DefaultVCpus instTypeInfos))"

definition getCpuReservations :: "provider \<Rightarrow> string \<Rightarrow> ClusterMeta \<Rightarrow> error + string" where
  "getCpuReservations prov it meta =
     (case getInstanceTypeCores prov it meta of
        Inl err \<Rightarrow> Inl err
      | Inr cores \<Rightarrow>
          (case cpuAllocations cores of
             None \<Rightarrow> Inl (Error (''Could not find suggested core reservation for instance type: ''
                                 @ it @ [CHR 0x0A]))
           | Some reservedCores \<Rightarrow> Inr reservedCores))"

text \<open>The field \<open>max\<close> of \<open>memEntry\<close> is \<open>max_mem\<close> here.\<close>

record memEntry =
  max_mem :: dyadic
  fraction :: dyadic

definition memPercentages :: "memEntry list" where
  "memPercentages =
     [\<lparr>max_mem = float64_lit 4 1, fraction = float64_lit 25 100\<rparr>,
      \<lparr>max_mem = float64_lit 8 1, fraction = float64_lit 20 100\<rparr>,
      \<lparr>max_mem = float64_lit 16 1, fraction = float64_lit 10 100\<rparr>,
      \<lparr>max_mem = float64_lit 128 1, fraction = float64_lit 6 100\<rparr>,
      \<lparr>max_mem = float64_lit 65535 1, fraction = float64_lit 2 100\<rparr>]"

definition getInstanceTypeMem :: "provider \<Rightarrow> string \<Rightarrow> ClusterMeta \<Rightarrow> error + dyadic" where
  "getInstanceTypeMem prov it meta =
     (case getInstanceTypeInfo prov it meta of
        Inl err \<Rightarrow> Inl err
      | Inr instTypeInfo \<Rightarrow>
          (let memSize = float64_of_int (SizeInMiB instTypeInfo);
               memStr = Sprintf_2f (fdiv memSize (float64_lit 1024 1))
           in ParseFloat memStr))"

text \<open>
  The loop of \<open>getMemReservations\<close> over the brackets still to visit, with the running
  lower bound and the accumulator; the first equation is the end of the table, the
  \<open>then\<close> branch the \<open>break\<close>.
\<close>

fun memLoop :: "memEntry list \<Rightarrow> dyadic \<Rightarrow> dyadic \<Rightarrow> dyadic \<Rightarrow> dyadic" where
  "memLoop [] instMem lower reserved = reserved"
| "memLoop (memEnt # rest) instMem lower reserved =
     (if fle instMem (max_mem memEnt)
      then fadd reserved (fmul (fraction memEnt) (fsub instMem lower))
      else memLoop rest instMem (max_mem memEnt)
             (fadd reserved (fmul (fraction memEnt) (fsub (max_mem memEnt) lower))))"

definition formatMem :: "dyadic \<Rightarrow> string" where
  "formatMem f =
     (let ff = FormatFloat f 32
      in (if CHR ''.'' \<in> set ff then ff else ff @ ''.0'') @ ''Mi'')"

definition getMemReservations :: "provider \<Rightarrow> string \<Rightarrow> ClusterMeta \<Rightarrow> error + string" where
  "getMemReservations prov it meta =
     (case getInstanceTypeMem prov it meta of
        Inl err \<Rightarrow> Inl err
      | Inr instMem \<Rightarrow> Inr (formatMem (memLoop memPercentages instMem (Dy 0 0) (Dy 0 0))))"

definition formatStorageSize :: "dyadic \<Rightarrow> error + string" where
  "formatStorageSize f =
     (let fstr = Sprintf_2f f
      in case ParseFloat fstr of
           Inl err \<Rightarrow> Inl err
         | Inr f64 \<Rightarrow> Inr (FormatFloat f64 64 @ ''Gi''))"

definition getInstanceTypeStorage :: "provider \<Rightarrow> string \<Rightarrow> ClusterMeta \<Rightarrow> error + int" where
  "getInstanceTypeStorage prov it meta =
     (let defaultInstanceTypeStorage = 20
      in case getInstanceTypeInfo prov it meta of
           Inl err \<Rightarrow> Inl err
         | Inr instTypeInfo \<Rightarrow>
             if \<not> InstanceStorageSupported instTypeInfo then Inr defaultInstanceTypeStorage
             else Inr (TotalSizeInGB instTypeInfo))"

definition getEphemeralStorageReservations ::
  "provider \<Rightarrow> string \<Rightarrow> ClusterMeta \<Rightarrow> error + string" where
  "getEphemeralStorageReservations prov it meta =
     (case getInstanceTypeStorage prov it meta of
        Inl err \<Rightarrow> Inl err
      | Inr storageSize \<Rightarrow>
          (let larger = math_Max (float64_lit 1 1)
                          (fdiv (float64_of_int storageSize) (float64_lit 16 1));
               smaller = math_Min (float64_lit 15 1) larger
           in formatStorageSize smaller))"

section \<open>Kubelet configuration merger\<close>

definition getKubeReserved :: "InlineDocument \<Rightarrow> (string \<Rightarrow> ival option)" where
  "getKubeReserved kec =
     (case kec ''kubeReserved'' of
        Some (IMap kubeReserved) \<Rightarrow> kubeReserved
      | _ \<Rightarrow> Map.empty)"

type_synonym getRscDefaultFunc = "string \<Rightarrow> ClusterMeta \<Rightarrow> error + string"

text \<open>
  The setters mutate the node group through a pointer and return an error or nil: the
  model returns the node group as it is left, paired with the error if there is one. A
  document pointer that is not nil holds an allocated map.
\<close>

definition setReservationDefault ::
  "NodeGroup \<Rightarrow> string \<Rightarrow> ClusterMeta \<Rightarrow> getRscDefaultFunc \<Rightarrow> NodeGroup \<times> error option" where
  "setReservationDefault ng resType meta fn =
     (let kec = (case NodeGroup.KubeletExtraConfig ng of None \<Rightarrow> Map.empty | Some d \<Rightarrow> d)
      in case fn (NodeGroup.InstanceType ng) meta of
           Inl err \<Rightarrow> (ng, Some err)
         | Inr rsrcRes \<Rightarrow>
             (let kubeReserved0 = getKubeReserved kec;
                  kubeReserved = (if kubeReserved0 resType = None
                                  then kubeReserved0(resType \<mapsto> IString rsrcRes)
                                  else kubeReserved0);
                  kec' = kec(''kubeReserved'' \<mapsto> IMap kubeReserved)
              in (ng\<lparr>NodeGroup.KubeletExtraConfig := Some kec'\<rparr>, None)))"

definition setCpuReservationsDefaults ::
  "NodeGroup \<Rightarrow> string \<Rightarrow> ClusterMeta \<Rightarrow> getRscDefaultFunc \<Rightarrow> NodeGroup \<times> error option" where
  "setCpuReservationsDefaults ng rscType meta gfn = setReservationDefault ng rscType meta gfn"

definition setMemoryResevationDefaults ::
  "NodeGroup \<Rightarrow> string \<Rightarrow> ClusterMeta \<Rightarrow> getRscDefaultFunc \<Rightarrow> NodeGroup \<times> error option" where
  "setMemoryResevationDefaults ng rscType meta gfn = setReservationDefault ng rscType meta gfn"

definition setEphemeralStorageDefaults ::
  "NodeGroup \<Rightarrow> string \<Rightarrow> ClusterMeta \<Rightarrow> getRscDefaultFunc \<Rightarrow> NodeGroup \<times> error option" where
  "setEphemeralStorageDefaults ng rscType meta gfn = setReservationDefault ng rscType meta gfn"

record rscParamSet =
  setFun :: "NodeGroup \<Rightarrow> string \<Rightarrow> ClusterMeta \<Rightarrow> getRscDefaultFunc \<Rightarrow> NodeGroup \<times> error option"
  getFun :: getRscDefaultFunc
  rscType :: string

definition rscParams :: "provider \<Rightarrow> rscParamSet list" where
  "rscParams prov =
     [\<lparr>setFun = setCpuReservationsDefaults, getFun = getCpuReservations prov, rscType = ''cpu''\<rparr>,
      \<lparr>setFun = setMemoryResevationDefaults, getFun = getMemReservations prov, rscType = ''memory''\<rparr>,
      \<lparr>setFun = setEphemeralStorageDefaults, getFun = getEphemeralStorageReservations prov,
       rscType = ''ephemeral-storage''\<rparr>]"

fun rscLoop :: "rscParamSet list \<Rightarrow> NodeGroup \<Rightarrow> ClusterMeta \<Rightarrow> NodeGroup \<times> error option" where
  "rscLoop [] ng meta = (ng, None)"
| "rscLoop (pSet # rest) ng meta =
     (case setFun pSet ng (rscType pSet) meta (getFun pSet) of
        (ng', Some err) \<Rightarrow> (ng', Some err)
      | (ng', None) \<Rightarrow> rscLoop rest ng' meta)"

definition SetKubeletExtraConfigDefaults ::
  "provider \<Rightarrow> NodeGroup \<Rightarrow> ClusterMeta \<Rightarrow> NodeGroup \<times> error option" where
  "SetKubeletExtraConfigDefaults prov ng meta = rscLoop (rscParams prov) ng meta"

section \<open>Node group defaults\<close>

text \<open>
  \<open>SetNodeGroupDefaults\<close> has no result in Go: it mutates the node group, and its last
  statement calls \<open>SetKubeletExtraConfigDefaults\<close> without reading the error it returns.
\<close>

definition SetNodeGroupDefaults :: "Consts \<Rightarrow> provider \<Rightarrow> NodeGroup \<Rightarrow> ClusterMeta \<Rightarrow> NodeGroup" where
  "SetNodeGroupDefaults c prov ng meta =
     (let ng1 = (if NodeGroup.InstanceType ng = []
                 then (if HasMixedInstances ng
                       then ng\<lparr>NodeGroup.InstanceType := ''mixed''\<rparr>
                       else ng\<lparr>NodeGroup.InstanceType := DefaultNodeType c\<rparr>)
                 else ng);
          ng2 = (if NodeGroup.AMIFamily ng1 = []
                 then ng1\<lparr>NodeGroup.AMIFamily := DefaultNodeImageFamily c\<rparr>
                 else ng1);
          sgs0 = (case NodeGroup.SecurityGroups ng2 of
                    None \<Rightarrow> \<lparr>AttachIDs = [], WithLocal = None, WithShared = None\<rparr>
                  | Some sgs \<Rightarrow> sgs);
          sgs1 = (if WithLocal sgs0 = None then sgs0\<lparr>WithLocal := Enabled\<rparr> else sgs0);
          sgs2 = (if WithShared sgs1 = None then sgs1\<lparr>WithShared := Enabled\<rparr> else sgs1);
          ng3 = ng2\<lparr>NodeGroup.SecurityGroups := Some sgs2\<rparr>;
          ssh0 = (case NodeGroup.SSH ng3 of
                    None \<Rightarrow> \<lparr>Allow = Disabled, PublicKeyPath = None, PublicKey = None,
                             PublicKeyName = None\<rparr>
                  | Some ssh \<Rightarrow> ssh);
          ng4 = ng3\<lparr>NodeGroup.SSH := Some (setSSHDefaults c ssh0)\<rparr>;
          ng5 = (if \<not> IsSetAndNonEmptyString (NodeGroup.VolumeType ng4)
                 then ng4\<lparr>NodeGroup.VolumeType := Some (DefaultNodeVolumeType c)\<rparr>
                 else ng4);
          iam0 = (case NodeGroup.IAM ng5 of
                    None \<Rightarrow> \<lparr>WithAddonPolicies =
                               \<lparr>ImageBuilder = None, AutoScaler = None, ExternalDNS = None,
                                CertManager = None, ALBIngress = None, XRay = None,
                                CloudWatch = None, EBS = None, FSX = None, EFS = None\<rparr>\<rparr>
                  | Some iam \<Rightarrow> iam);
          ng6 = ng5\<lparr>NodeGroup.IAM := Some (setIAMDefaults iam0)\<rparr>;
          labels0 = (case NodeGroup.Labels ng6 of None \<Rightarrow> Map.empty | Some labels \<Rightarrow> labels);
          ng7 = ng6\<lparr>NodeGroup.Labels :=
                   Some (setDefaultNodeLabels c labels0 (ClusterMeta.Name meta) (NodeGroup.Name ng6))\<rparr>;
          ng8 = (if NodeGroup.KubeletExtraConfig ng7 = None
                 then ng7\<lparr>NodeGroup.KubeletExtraConfig := Some Map.empty\<rparr>
                 else ng7)
      in fst (SetKubeletExtraConfigDefaults prov ng8 meta))"

definition SetManagedNodeGroupDefaults ::
  "Consts \<Rightarrow> ManagedNodeGroup \<Rightarrow> ClusterMeta \<Rightarrow> ManagedNodeGroup" where
  "SetManagedNodeGroupDefaults c ng meta =
     (let ng1 = (if ManagedNodeGroup.AMIFamily ng = []
                 then ng\<lparr>ManagedNodeGroup.AMIFamily := NodeImageFamilyAmazonLinux2 c\<rparr>
                 else ng);
          ng2 = (if ManagedNodeGroup.InstanceType ng1 = []
                 then ng1\<lparr>ManagedNodeGroup.InstanceType := DefaultNodeType c\<rparr>
                 else ng1);
          ng3 = (if ManagedNodeGroup.ScalingConfig ng2 = None
                 then ng2\<lparr>ManagedNodeGroup.ScalingConfig :=
                        Some \<lparr>DesiredCapacity = None, MinSize = None, MaxSize = None\<rparr>\<rparr>
                 else ng2);
          ssh0 = (case ManagedNodeGroup.SSH ng3 of
                    None \<Rightarrow> \<lparr>Allow = Disabled, PublicKeyPath = None, PublicKey = None,
                             PublicKeyName = None\<rparr>
                  | Some ssh \<Rightarrow> ssh);
          ng4 = ng3\<lparr>ManagedNodeGroup.SSH := Some (setSSHDefaults c ssh0)\<rparr>;
          iam0 = (case ManagedNodeGroup.IAM ng4 of
                    None \<Rightarrow> \<lparr>WithAddonPolicies =
                               \<lparr>ImageBuilder = None, AutoScaler = None, ExternalDNS = None,
                                CertManager = None, ALBIngress = None, XRay = None,
                                CloudWatch = None, EBS = None, FSX = None, EFS = None\<rparr>\<rparr>
                  | Some iam \<Rightarrow> iam);
          ng5 = ng4\<lparr>ManagedNodeGroup.IAM := Some (setIAMDefaults iam0)\<rparr>;
          labels0 = (case ManagedNodeGroup.Labels ng5 of None \<Rightarrow> Map.empty | Some labels \<Rightarrow> labels);
          ng6 = ng5\<lparr>ManagedNodeGroup.Labels :=
                   Some (setDefaultNodeLabels c labels0 (ClusterMeta.Name meta)
                           (ManagedNodeGroup.Name ng5))\<rparr>;
          tags0 = (case ManagedNodeGroup.Tags ng6 of None \<Rightarrow> Map.empty | Some tags \<Rightarrow> tags)
      in ng6\<lparr>ManagedNodeGroup.Tags :=
               Some ((tags0(NodeGroupNameTag c \<mapsto> ManagedNodeGroup.Name ng6))
                       (NodeGroupTypeTag c \<mapsto> NodeGroupTypeManaged c))\<rparr>)"

section \<open>The defaulting pass in closed form\<close>

text \<open>
  Auxiliary definitions for the proofs: the document of a node group (empty when the field
  is nil), the effect of one successful merge on a document, and the fields that
  \<open>SetNodeGroupDefaults\<close> and \<open>SetManagedNodeGroupDefaults\<close> assign before the reservation
  pass, written as one record update. The lemmas \<open>setReservationDefault_Inr\<close>,
  \<open>SetNodeGroupDefaults_eq\<close> and \<open>SetManagedNodeGroupDefaults_eq\<close> connect them to the
  functions above.
\<close>

definition docOf :: "NodeGroup \<Rightarrow> InlineDocument" where
  "docOf ng = (case NodeGroup.KubeletExtraConfig ng of None \<Rightarrow> Map.empty | Some d \<Rightarrow> d)"

definition mergeReservation :: "InlineDocument \<Rightarrow> string \<Rightarrow> string \<Rightarrow> InlineDocument" where
  "mergeReservation kec resType rsrcRes =
     kec(''kubeReserved'' \<mapsto>
       IMap (if getKubeReserved kec resType = None
             then (getKubeReserved kec)(resType \<mapsto> IString rsrcRes)
             else getKubeReserved kec))"

definition fieldDefaults :: "Consts \<Rightarrow> NodeGroup \<Rightarrow> ClusterMeta \<Rightarrow> NodeGroup" where
  "fieldDefaults c ng meta =
     ng\<lparr>NodeGroup.InstanceType :=
          (if NodeGroup.InstanceType ng = []
           then (if HasMixedInstances ng then ''mixed'' else DefaultNodeType c)
           else NodeGroup.InstanceType ng),
        NodeGroup.AMIFamily :=
          (if NodeGroup.AMIFamily ng = [] then DefaultNodeImageFamily c
           else NodeGroup.AMIFamily ng),
        NodeGroup.SecurityGroups :=
          Some (let sgs = (case NodeGroup.SecurityGroups ng of
                             None \<Rightarrow> \<lparr>AttachIDs = [], WithLocal = None, WithShared = None\<rparr>
                           | Some sgs \<Rightarrow> sgs)
                in sgs\<lparr>WithLocal := (if WithLocal sgs = None then Enabled else WithLocal sgs),
                       WithShared := (if WithShared sgs = None then Enabled else WithShared sgs)\<rparr>),
        NodeGroup.SSH :=
          Some (setSSHDefaults c
                  (case NodeGroup.SSH ng of
                     None \<Rightarrow> \<lparr>Allow = Disabled, PublicKeyPath = None, PublicKey = None,
                              PublicKeyName = None\<rparr>
                   | Some ssh \<Rightarrow> ssh)),
        NodeGroup.VolumeType :=
          (if \<not> IsSetAndNonEmptyString (NodeGroup.VolumeType ng)
           then Some (DefaultNodeVolumeType c) else NodeGroup.VolumeType ng),
        NodeGroup.IAM :=
          Some (setIAMDefaults
                  (case NodeGroup.IAM ng of
                     None \<Rightarrow> \<lparr>WithAddonPolicies =
                                \<lparr>ImageBuilder = None, AutoScaler = None, ExternalDNS = None,
                                 CertManager = None, ALBIngress = None, XRay = None,
                                 CloudWatch = None, EBS = None, FSX = None, EFS = None\<rparr>\<rparr>
                   | Some iam \<Rightarrow> iam)),
        NodeGroup.Labels :=
          Some (setDefaultNodeLabels c
                  (case NodeGroup.Labels ng of None \<Rightarrow> Map.empty | Some labels \<Rightarrow> labels)
                  (ClusterMeta.Name meta) (NodeGroup.Name ng)),
        NodeGroup.KubeletExtraConfig := Some (docOf ng)\<rparr>"

definition managedFieldDefaults :: "Consts \<Rightarrow> ManagedNodeGroup \<Rightarrow> ClusterMeta \<Rightarrow> ManagedNodeGroup" where
  "managedFieldDefaults c ng meta =
     ng\<lparr>ManagedNodeGroup.AMIFamily :=
          (if ManagedNodeGroup.AMIFamily ng = [] then NodeImageFamilyAmazonLinux2 c
           else ManagedNodeGroup.AMIFamily ng),
        ManagedNodeGroup.InstanceType :=
          (if ManagedNodeGroup.InstanceType ng = [] then DefaultNodeType c
           else ManagedNodeGroup.InstanceType ng),
        ManagedNodeGroup.ScalingConfig :=
          (if ManagedNodeGroup.ScalingConfig ng = None
           then Some \<lparr>DesiredCapacity = None, MinSize = None, MaxSize = None\<rparr>
           else ManagedNodeGroup.ScalingConfig ng),
        ManagedNodeGroup.SSH :=
          Some (setSSHDefaults c
                  (case ManagedNodeGroup.SSH ng of
                     None \<Rightarrow> \<lparr>Allow = Disabled, PublicKeyPath = None, PublicKey = None,
                              PublicKeyName = None\<rparr>
                   | Some ssh \<Rightarrow> ssh)),
        ManagedNodeGroup.IAM :=
          Some (setIAMDefaults
                  (case ManagedNodeGroup.IAM ng of
                     None \<Rightarrow> \<lparr>WithAddonPolicies =
                                \<lparr>ImageBuilder = None, AutoScaler = None, ExternalDNS = None,
                                 CertManager = None, ALBIngress = None, XRay = None,
                                 CloudWatch = None, EBS = None, FSX = None, EFS = None\<rparr>\<rparr>
                   | Some iam \<Rightarrow> iam)),
        ManagedNodeGroup.Labels :=
          Some (setDefaultNodeLabels c
                  (case ManagedNodeGroup.Labels ng of None \<Rightarrow> Map.empty | Some labels \<Rightarrow> labels)
                  (ClusterMeta.Name meta) (ManagedNodeGroup.Name ng)),
        ManagedNodeGroup.Tags :=
          Some (((case ManagedNodeGroup.Tags ng of None \<Rightarrow> Map.empty | Some tags \<Rightarrow> tags)
                   (NodeGroupNameTag c \<mapsto> ManagedNodeGroup.Name ng))
                  (NodeGroupTypeTag c \<mapsto> NodeGroupTypeManaged c))\<rparr>"

text \<open>
  A kubelet document has its reservations when its kubeReserved entry is a map with entries
  for cpu, memory and ephemeral-storage.
\<close>

definition hasReservations :: "InlineDocument option \<Rightarrow> bool" where
  "hasReservations doc =
     (case doc of
        None \<Rightarrow> False
      | Some kec \<Rightarrow>
          (case kec ''kubeReserved'' of
             Some (IMap kubeReserved) \<Rightarrow>
               kubeReserved ''cpu'' \<noteq> None \<and> kubeReserved ''memory'' \<noteq> None
               \<and> kubeReserved ''ephemeral-storage'' \<noteq> None
           | _ \<Rightarrow> False))"

section \<open>Example inputs\<close>

text \<open>
  Concrete values for the examples below: the constants as the upstream package declares
  them, a cluster, and providers that answer every lookup with the same facts or fail
  every lookup.
\<close>

definition exampleConsts :: Consts where
  "exampleConsts =
     \<lparr>DefaultNodeType = ''m5.large'',
      DefaultNodeImageFamily = ''AmazonLinux2'',
      NodeImageFamilyAmazonLinux2 = ''AmazonLinux2'',
      DefaultNodeVolumeType = ''gp2'',
      DefaultNodeSSHPublicKeyPath = ''~/.ssh/id_rsa.pub'',
      ClusterNameLabel = ''alpha.eksctl.io/cluster-name'',
      NodeGroupNameLabel = ''alpha.eksctl.io/nodegroup-name'',
      NodeGroupNameTag = ''alpha.eksctl.io/nodegroup-name'',
      NodeGroupTypeTag = ''alpha.eksctl.io/nodegroup-type'',
      NodeGroupTypeManaged = ''managed'',
      NamespaceDefault = ''default'',
      SupportedCloudWatchClusterLogTypes =
        [''api'', ''audit'', ''authenticator'', ''controllerManager'', ''scheduler'']\<rparr>"

definition exampleMeta :: ClusterMeta where
  "exampleMeta = \<lparr>ClusterMeta.Name = ''prod'', Region = ''us-west-2''\<rparr>"

definition facts :: "int \<Rightarrow> int \<Rightarrow> bool \<Rightarrow> int \<Rightarrow> InstanceTypeInfo" where
  "facts vcpus mib supported gb =
     \<lparr>DefaultVCpus = vcpus, SizeInMiB = mib, InstanceStorageSupported = supported,
      TotalSizeInGB = gb\<rparr>"

definition answering :: "InstanceTypeInfo \<Rightarrow> provider" where
  "answering info it meta = Inr \<lparr>DescribeInstanceTypesOutput.InstanceTypes = [info]\<rparr>"

definition failing :: "provider" where
  "failing it meta = Inl (Error ''RequestError: send request failed'')"

definition sshConfig :: "bool option \<Rightarrow> string option \<Rightarrow> NodeGroupSSH" where
  "sshConfig allow keyName =
     \<lparr>Allow = allow, PublicKeyPath = None, PublicKey = None, PublicKeyName = keyName\<rparr>"

definition loggingConfig :: "string list \<Rightarrow> ClusterConfig" where
  "loggingConfig types =
     \<lparr>ClusterConfig.IAM = None,
      ClusterConfig.CloudWatch = Some \<lparr>ClusterLogging = Some \<lparr>EnableTypes = types\<rparr>\<rparr>\<rparr>"

definition bareNodeGroup :: NodeGroup where
  "bareNodeGroup =
     \<lparr>NodeGroup.Name = ''ng-1'', NodeGroup.InstanceType = [], NodeGroup.AMIFamily = [],
      NodeGroup.InstancesDistribution = None, NodeGroup.SecurityGroups = None,
      NodeGroup.SSH = None, NodeGroup.VolumeType = None, NodeGroup.IAM = None,
      NodeGroup.Labels = None, NodeGroup.KubeletExtraConfig = None\<rparr>"

definition presetNodeGroup :: NodeGroup where
  "presetNodeGroup =
     bareNodeGroup\<lparr>NodeGroup.InstanceType := ''m5.xlarge'',
       NodeGroup.KubeletExtraConfig :=
         Some [''kubeReserved'' \<mapsto> IMap [''memory'' \<mapsto> IString ''500Mi''],
               ''maxPods'' \<mapsto> INumber 110]\<rparr>"


definition bareManagedNodeGroup :: ManagedNodeGroup where
  "bareManagedNodeGroup =
     \<lparr>ManagedNodeGroup.Name = ''mng-1'', ManagedNodeGroup.AMIFamily = [],
      ManagedNodeGroup.InstanceType = [], ManagedNodeGroup.ScalingConfig = None,
      ManagedNodeGroup.SSH = None, ManagedNodeGroup.IAM = None, ManagedNodeGroup.Labels = None,
      ManagedNodeGroup.Tags = None, ManagedNodeGroup.KubeletExtraConfig = None\<rparr>"

definition xlarge :: provider where
  "xlarge = answering (facts 4 16384 True 160)"

definition podsManagedNodeGroup :: ManagedNodeGroup where
  "podsManagedNodeGroup =
     bareManagedNodeGroup\<lparr>ManagedNodeGroup.InstanceType := ''m5.xlarge'',
       ManagedNodeGroup.KubeletExtraConfig := Some [''maxPods'' \<mapsto> INumber 110]\<rparr>"

definition sixGiB :: provider where
  "sixGiB = answering (facts 2 6144 False 0)"

definition withStorage :: "int \<Rightarrow> provider" where
  "withStorage gb = answering (facts 4 16384 True gb)"

definition withoutStorage :: provider where
  "withoutStorage = answering (facts 4 16384 False 0)"

definition cpuPresetNodeGroup :: NodeGroup where
  "cpuPresetNodeGroup =
     bareNodeGroup\<lparr>NodeGroup.InstanceType := ''c5.9xlarge'',
       NodeGroup.KubeletExtraConfig :=
         Some [''kubeReserved'' \<mapsto> IMap [''cpu'' \<mapsto> IString ''200m'']]\<rparr>"

definition nineXlarge :: provider where
  "nineXlarge = answering (facts 36 73728 False 0)"

section \<open>Properties\<close>

subsection \<open>CPU reservation\<close>

lemma cpuAllocations_eq:
  "cpuAllocations n =
     (if n = 1 then Some ''60m'' else if n = 2 then Some ''100m''
      else if n = 4 then Some ''140m'' else if n = 8 then Some ''180m''
      else if n = 16 then Some ''260m'' else if n = 32 then Some ''420m''
      else if n = 48 then Some ''580m'' else if n = 64 then Some ''740m''
      else if n = 96 then Some ''1040m'' else None)"
  by (simp add: cpuAllocations_def)

text \<open>
  Claim C4. When the provider answers for the instance type, the CPU reservation is read
  from the table by the exact default vCPU count: 1 gives 60m, 2 gives 100m, 4 gives 140m,
  8 gives 180m, 16 gives 260m, 32 gives 420m, 48 gives 580m, 64 gives 740m and 96 gives
  1040m; every other count gives the error "Could not find suggested core reservation",
  and no value.
\<close>

theorem getCpuReservations_exact_table:
  assumes "prov it meta = Inr out"
    and "DescribeInstanceTypesOutput.InstanceTypes out = info # rest"
  shows "getCpuReservations prov it meta =
     (if DefaultVCpus info = 1 then Inr ''60m''
      else if DefaultVCpus info = 2 then Inr ''100m''
      else if DefaultVCpus info = 4 then Inr ''140m''
      else if DefaultVCpus info = 8 then Inr ''180m''
      else if DefaultVCpus info = 16 then Inr ''260m''
      else if DefaultVCpus info = 32 then Inr ''420m''
      else if DefaultVCpus info = 48 then Inr ''580m''
      else if DefaultVCpus info = 64 then Inr ''740m''
      else if DefaultVCpus info = 96 then Inr ''1040m''
      else Inl (Error (''Could not find suggested core reservation for instance type: ''
                       @ it @ [CHR 0x0A])))"
  using assms
  by (simp add: getCpuReservations_def getInstanceTypeCores_def getInstanceTypeInfo_def
        cpuAllocations_eq)

theorem getCpuReservations_exact_table_witness:
  "getCpuReservations (answering (facts 16 65536 False 0)) ''m5.4xlarge'' exampleMeta = Inr ''260m''
   \<and> getCpuReservations (answering (facts 3 4096 False 0)) ''x1.odd'' exampleMeta =
       Inl (Error (''Could not find suggested core reservation for instance type: x1.odd'' @ [CHR 0x0A]))"
  using getCpuReservations_exact_table [of "answering (facts 16 65536 False 0)" "''m5.4xlarge''" exampleMeta
          "\<lparr>DescribeInstanceTypesOutput.InstanceTypes = [facts 16 65536 False 0]\<rparr>" "facts 16 65536 False 0" "[]"]
        getCpuReservations_exact_table [of "answering (facts 3 4096 False 0)" "''x1.odd''" exampleMeta
          "\<lparr>DescribeInstanceTypesOutput.InstanceTypes = [facts 3 4096 False 0]\<rparr>" "facts 3 4096 False 0" "[]"]
  by (simp add: answering_def facts_def)

subsection \<open>SSH defaults\<close>

text \<open>
  Claim C7. With a non-empty default key path: when no key field is set and allow is unset,
  the result has allow disabled and no key path set; when no key field is set and allow is
  enabled, the result has the default key path, which is non-empty; when a key field is set
  and allow is unset or enabled, the result has allow enabled; when a key field is set and
  allow is explicitly disabled, allow stays disabled.
\<close>

theorem setSSHDefaults_cases:
  assumes "DefaultNodeSSHPublicKeyPath c \<noteq> []"
  shows
    "(countEnabledFields [PublicKeyName s, PublicKeyPath s, PublicKey s] = 0 \<and> Allow s = None
        \<longrightarrow> Allow (setSSHDefaults c s) = Disabled
            \<and> PublicKeyPath (setSSHDefaults c s) = PublicKeyPath s
            \<and> \<not> IsSetAndNonEmptyString (PublicKeyPath (setSSHDefaults c s)))
     \<and> (countEnabledFields [PublicKeyName s, PublicKeyPath s, PublicKey s] = 0 \<and> Allow s = Enabled
        \<longrightarrow> Allow (setSSHDefaults c s) = Enabled
            \<and> PublicKeyPath (setSSHDefaults c s) = Some (DefaultNodeSSHPublicKeyPath c)
            \<and> IsSetAndNonEmptyString (PublicKeyPath (setSSHDefaults c s)))
     \<and> (0 < countEnabledFields [PublicKeyName s, PublicKeyPath s, PublicKey s]
          \<and> (Allow s = None \<or> Allow s = Enabled)
        \<longrightarrow> Allow (setSSHDefaults c s) = Enabled)
     \<and> (0 < countEnabledFields [PublicKeyName s, PublicKeyPath s, PublicKey s]
          \<and> Allow s = Disabled
        \<longrightarrow> Allow (setSSHDefaults c s) = Disabled)"
  using assms
  by (auto simp: setSSHDefaults_def Enabled_def Disabled_def IsEnabled_def IsDisabled_def
        IsSetAndNonEmptyString_def Let_def split: option.splits if_splits)

theorem setSSHDefaults_cases_witness:
  "Allow (setSSHDefaults exampleConsts (sshConfig None None)) = Disabled
   \<and> PublicKeyPath (setSSHDefaults exampleConsts (sshConfig None None)) = None
   \<and> Allow (setSSHDefaults exampleConsts (sshConfig Enabled None)) = Enabled
   \<and> PublicKeyPath (setSSHDefaults exampleConsts (sshConfig Enabled None)) = Some ''~/.ssh/id_rsa.pub''
   \<and> Allow (setSSHDefaults exampleConsts (sshConfig None (Some ''ops-key''))) = Enabled
   \<and> Allow (setSSHDefaults exampleConsts (sshConfig Enabled (Some ''ops-key''))) = Enabled
   \<and> Allow (setSSHDefaults exampleConsts (sshConfig Disabled (Some ''ops-key''))) = Disabled"
  using setSSHDefaults_cases [of exampleConsts "sshConfig None None"]
        setSSHDefaults_cases [of exampleConsts "sshConfig Enabled None"]
        setSSHDefaults_cases [of exampleConsts "sshConfig None (Some ''ops-key'')"]
        setSSHDefaults_cases [of exampleConsts "sshConfig Enabled (Some ''ops-key'')"]
        setSSHDefaults_cases [of exampleConsts "sshConfig Disabled (Some ''ops-key'')"]
  by (simp add: exampleConsts_def sshConfig_def IsSetAndNonEmptyString_def Enabled_def Disabled_def)

subsection \<open>Cluster log types\<close>

text \<open>
  Claim C9. The enable-list of cluster logging is replaced by the full list of supported log
  types exactly when it is the one-element list "all" or the one-element list "*"; every
  other list, of another length or with another single element, is left as it is, and so is
  a configuration without a cluster-logging section.
\<close>

theorem SetClusterConfigDefaults_log_types:
  "ClusterConfig.CloudWatch (SetClusterConfigDefaults c cfg) =
     (case ClusterConfig.CloudWatch cfg of
        None \<Rightarrow> None
      | Some cw \<Rightarrow>
          (case ClusterLogging cw of
             None \<Rightarrow> Some cw
           | Some cl \<Rightarrow>
               Some (cw\<lparr>ClusterLogging :=
                 Some (cl\<lparr>EnableTypes :=
                   (if EnableTypes cl = [''all''] \<or> EnableTypes cl = [''*'']
                    then SupportedCloudWatchClusterLogTypes c
                    else EnableTypes cl)\<rparr>)\<rparr>)))"
proof (cases "ClusterConfig.CloudWatch cfg")
  case None
  then show ?thesis
    by (simp add: SetClusterConfigDefaults_def HasClusterCloudWatchLogging_def Let_def)
next
  case (Some cw)
  show ?thesis
  proof (cases "ClusterLogging cw")
    case None
    with Some show ?thesis
      by (simp add: SetClusterConfigDefaults_def HasClusterCloudWatchLogging_def Let_def)
  next
    case (Some cl)
    have single: "(length (EnableTypes cl) = 1 \<and> (hd (EnableTypes cl) = ''all'' \<or> hd (EnableTypes cl) = ''*''))
                  = (EnableTypes cl = [''all''] \<or> EnableTypes cl = [''*''])"
      by (cases "EnableTypes cl") auto
    from \<open>ClusterConfig.CloudWatch cfg = Some cw\<close> Some single show ?thesis
      by (auto simp: SetClusterConfigDefaults_def HasClusterCloudWatchLogging_def Let_def)
  qed
qed

theorem SetClusterConfigDefaults_log_types_witness:
  "ClusterConfig.CloudWatch (SetClusterConfigDefaults exampleConsts (loggingConfig [''all''])) =
     Some \<lparr>ClusterLogging = Some \<lparr>EnableTypes =
       [''api'', ''audit'', ''authenticator'', ''controllerManager'', ''scheduler'']\<rparr>\<rparr>
   \<and> ClusterConfig.CloudWatch (SetClusterConfigDefaults exampleConsts (loggingConfig [''*''])) =
     Some \<lparr>ClusterLogging = Some \<lparr>EnableTypes =
       [''api'', ''audit'', ''authenticator'', ''controllerManager'', ''scheduler'']\<rparr>\<rparr>
   \<and> ClusterConfig.CloudWatch (SetClusterConfigDefaults exampleConsts (loggingConfig [''all'', ''api''])) =
     Some \<lparr>ClusterLogging = Some \<lparr>EnableTypes = [''all'', ''api'']\<rparr>\<rparr>
   \<and> ClusterConfig.CloudWatch (SetClusterConfigDefaults exampleConsts (loggingConfig [''audit''])) =
     Some \<lparr>ClusterLogging = Some \<lparr>EnableTypes = [''audit'']\<rparr>\<rparr>
   \<and> ClusterConfig.CloudWatch (SetClusterConfigDefaults exampleConsts (loggingConfig [])) =
     Some \<lparr>ClusterLogging = Some \<lparr>EnableTypes = []\<rparr>\<rparr>"
  using SetClusterConfigDefaults_log_types [of exampleConsts "loggingConfig [''all'']"]
        SetClusterConfigDefaults_log_types [of exampleConsts "loggingConfig [''*'']"]
        SetClusterConfigDefaults_log_types [of exampleConsts "loggingConfig [''all'', ''api'']"]
        SetClusterConfigDefaults_log_types [of exampleConsts "loggingConfig [''audit'']"]
        SetClusterConfigDefaults_log_types [of exampleConsts "loggingConfig []"]
  by (simp add: loggingConfig_def exampleConsts_def)

subsection \<open>Kubelet document merge and the node-group pass\<close>

lemma xlarge_cpu: "getCpuReservations xlarge it exampleMeta = Inr ''140m''"
  by (simp add: xlarge_def answering_def facts_def getCpuReservations_def
      getInstanceTypeCores_def getInstanceTypeInfo_def cpuAllocations_eq)

lemma xlarge_mem_any: "getMemReservations xlarge it exampleMeta = getMemReservations xlarge [] exampleMeta"
  by (simp add: xlarge_def answering_def getMemReservations_def getInstanceTypeMem_def
      getInstanceTypeInfo_def)

lemma xlarge_mem_nil: "getMemReservations xlarge [] exampleMeta = Inr ''2.6Mi''"
  by code_simp

lemma xlarge_mem: "getMemReservations xlarge it exampleMeta = Inr ''2.6Mi''"
  using xlarge_mem_any xlarge_mem_nil by simp

lemma xlarge_eph_any:
  "getEphemeralStorageReservations xlarge it exampleMeta =
     getEphemeralStorageReservations xlarge [] exampleMeta"
  by (simp add: xlarge_def answering_def getEphemeralStorageReservations_def
      getInstanceTypeStorage_def getInstanceTypeInfo_def)

lemma xlarge_eph_nil: "getEphemeralStorageReservations xlarge [] exampleMeta = Inr ''10Gi''"
  by code_simp

lemma xlarge_eph: "getEphemeralStorageReservations xlarge it exampleMeta = Inr ''10Gi''"
  using xlarge_eph_any xlarge_eph_nil by simp

lemma setReservationDefault_Inr:
  "fn (NodeGroup.InstanceType ng) meta = Inr rsrcRes \<Longrightarrow>
   setReservationDefault ng resType meta fn =
     (ng\<lparr>NodeGroup.KubeletExtraConfig := Some (mergeReservation (docOf ng) resType rsrcRes)\<rparr>, None)"
  by (simp add: setReservationDefault_def docOf_def mergeReservation_def Let_def)

lemma setReservationDefault_Inl:
  "fn (NodeGroup.InstanceType ng) meta = Inl err \<Longrightarrow>
   setReservationDefault ng resType meta fn = (ng, Some err)"
  by (simp add: setReservationDefault_def)

lemma getKubeReserved_merge:
  "getKubeReserved (mergeReservation kec resType rsrcRes) =
     (if getKubeReserved kec resType = None
      then (getKubeReserved kec)(resType \<mapsto> IString rsrcRes)
      else getKubeReserved kec)"
  by (simp add: mergeReservation_def getKubeReserved_def)

lemma mergeReservation_other_keys:
  "k \<noteq> ''kubeReserved'' \<Longrightarrow> mergeReservation kec resType rsrcRes k = kec k"
  by (simp add: mergeReservation_def)

lemma mergeReservation_kubeReserved:
  "mergeReservation kec resType rsrcRes ''kubeReserved'' =
     Some (IMap (getKubeReserved (mergeReservation kec resType rsrcRes)))"
  by (simp add: mergeReservation_def getKubeReserved_def)

lemma mergeReservation_present:
  "getKubeReserved kec resType \<noteq> None \<Longrightarrow> mergeReservation kec resType rsrcRes = kec"
  by (auto simp: mergeReservation_def getKubeReserved_def fun_eq_iff
      split: option.splits ival.splits)



lemma docOf_update [simp]:
  "docOf (ng\<lparr>NodeGroup.KubeletExtraConfig := Some d\<rparr>) = d"
  by (simp add: docOf_def)

lemma SetKubeletExtraConfigDefaults_Inr:
  assumes "getCpuReservations prov (NodeGroup.InstanceType ng) meta = Inr c"
    and "getMemReservations prov (NodeGroup.InstanceType ng) meta = Inr m"
    and "getEphemeralStorageReservations prov (NodeGroup.InstanceType ng) meta = Inr e"
  shows "SetKubeletExtraConfigDefaults prov ng meta =
     (ng\<lparr>NodeGroup.KubeletExtraConfig :=
         Some (mergeReservation (mergeReservation (mergeReservation (docOf ng) ''cpu'' c)
                 ''memory'' m) ''ephemeral-storage'' e)\<rparr>, None)"
  using assms
  by (simp add: SetKubeletExtraConfigDefaults_def rscParams_def setCpuReservationsDefaults_def
      setMemoryResevationDefaults_def setEphemeralStorageDefaults_def setReservationDefault_Inr)



lemma if_update_InstanceType:
  "(if b then r\<lparr>NodeGroup.InstanceType := x\<rparr> else r) =
     r\<lparr>NodeGroup.InstanceType := (if b then x else NodeGroup.InstanceType r)\<rparr>"
  "(if b then r\<lparr>NodeGroup.InstanceType := x\<rparr> else r\<lparr>NodeGroup.InstanceType := y\<rparr>) =
     r\<lparr>NodeGroup.InstanceType := (if b then x else y)\<rparr>"
  by simp_all

lemma if_update_AMIFamily:
  "(if b then r\<lparr>NodeGroup.AMIFamily := x\<rparr> else r) =
     r\<lparr>NodeGroup.AMIFamily := (if b then x else NodeGroup.AMIFamily r)\<rparr>"
  by simp

lemma if_update_VolumeType:
  "(if b then r\<lparr>NodeGroup.VolumeType := x\<rparr> else r) =
     r\<lparr>NodeGroup.VolumeType := (if b then x else NodeGroup.VolumeType r)\<rparr>"
  by simp

lemma if_update_KubeletExtraConfig:
  "(if b then r\<lparr>NodeGroup.KubeletExtraConfig := x\<rparr> else r) =
     r\<lparr>NodeGroup.KubeletExtraConfig := (if b then x else NodeGroup.KubeletExtraConfig r)\<rparr>"
  by simp

lemma if_update_SGs:
  "(if b then s\<lparr>WithLocal := x\<rparr> else s) = s\<lparr>WithLocal := (if b then x else WithLocal s)\<rparr>"
  "(if b then s\<lparr>WithShared := x\<rparr> else s) = s\<lparr>WithShared := (if b then x else WithShared s)\<rparr>"
  by simp_all

lemmas if_updates = if_update_InstanceType if_update_AMIFamily if_update_VolumeType
  if_update_KubeletExtraConfig if_update_SGs

lemma docOf_if:
  "(if k = None then Some Map.empty else k) = Some (case k of None \<Rightarrow> Map.empty | Some d \<Rightarrow> d)"
  by (simp split: option.splits)

lemma SetNodeGroupDefaults_eq:
  "SetNodeGroupDefaults c prov ng meta =
     fst (SetKubeletExtraConfigDefaults prov (fieldDefaults c ng meta) meta)"
  by (simp add: SetNodeGroupDefaults_def fieldDefaults_def Let_def if_updates docOf_if docOf_def
      split del: if_split cong del: if_weak_cong)

lemma SetKubeletExtraConfigDefaults_cases:
  "SetKubeletExtraConfigDefaults prov ng meta =
     (case getCpuReservations prov (NodeGroup.InstanceType ng) meta of
        Inl err \<Rightarrow> (ng, Some err)
      | Inr c \<Rightarrow>
          (case getMemReservations prov (NodeGroup.InstanceType ng) meta of
             Inl err \<Rightarrow>
               (ng\<lparr>NodeGroup.KubeletExtraConfig :=
                    Some (mergeReservation (docOf ng) ''cpu'' c)\<rparr>, Some err)
           | Inr m \<Rightarrow>
               (case getEphemeralStorageReservations prov (NodeGroup.InstanceType ng) meta of
                  Inl err \<Rightarrow>
                    (ng\<lparr>NodeGroup.KubeletExtraConfig :=
                         Some (mergeReservation (mergeReservation (docOf ng) ''cpu'' c)
                                 ''memory'' m)\<rparr>, Some err)
                | Inr e \<Rightarrow>
                    (ng\<lparr>NodeGroup.KubeletExtraConfig :=
                         Some (mergeReservation (mergeReservation
                                 (mergeReservation (docOf ng) ''cpu'' c) ''memory'' m)
                                 ''ephemeral-storage'' e)\<rparr>, None))))"
  by (simp add: SetKubeletExtraConfigDefaults_def rscParams_def setCpuReservationsDefaults_def
      setMemoryResevationDefaults_def setEphemeralStorageDefaults_def
      setReservationDefault_Inr setReservationDefault_Inl split: sum.splits)

lemma SetKubeletExtraConfigDefaults_idem:
  "fst (SetKubeletExtraConfigDefaults prov (fst (SetKubeletExtraConfigDefaults prov ng meta)) meta) =
     fst (SetKubeletExtraConfigDefaults prov ng meta)"
  by (simp add: SetKubeletExtraConfigDefaults_cases mergeReservation_present getKubeReserved_merge
      split: sum.splits)

lemma SetKubeletExtraConfigDefaults_shape:
  "NodeGroup.KubeletExtraConfig ng = Some d0 \<Longrightarrow>
   \<exists>d. fst (SetKubeletExtraConfigDefaults prov ng meta) = ng\<lparr>NodeGroup.KubeletExtraConfig := Some d\<rparr>"
  by (auto simp: SetKubeletExtraConfigDefaults_cases split: sum.splits intro: exI [of _ d0])

lemma dflt_idem: "dflt (dflt v) = dflt v"
  by (simp add: dflt_def Disabled_def)

lemma setIAMDefaults_idem: "setIAMDefaults (setIAMDefaults iam) = setIAMDefaults iam"
  by (simp add: setIAMDefaults_def Let_def dflt_idem)

lemma setSSHDefaults_idem: "setSSHDefaults c (setSSHDefaults c s) = setSSHDefaults c s"
  by (auto simp: setSSHDefaults_def Let_def IsEnabled_def IsDisabled_def Enabled_def Disabled_def
      IsSetAndNonEmptyString_def split: option.splits if_splits)

lemma setDefaultNodeLabels_idem:
  "setDefaultNodeLabels c (setDefaultNodeLabels c l x y) x y = setDefaultNodeLabels c l x y"
  by (auto simp: setDefaultNodeLabels_def fun_eq_iff)

lemma fieldDefaults_idem:
  "fieldDefaults c ((fieldDefaults c ng meta)\<lparr>NodeGroup.KubeletExtraConfig := Some d\<rparr>) meta =
     (fieldDefaults c ng meta)\<lparr>NodeGroup.KubeletExtraConfig := Some d\<rparr>"
  by (simp add: fieldDefaults_def Let_def HasMixedInstances_def docOf_def Enabled_def
      setSSHDefaults_idem setIAMDefaults_idem setDefaultNodeLabels_idem
      IsSetAndNonEmptyString_def)

lemma SetNodeGroupDefaults_idem:
  "SetNodeGroupDefaults c prov (SetNodeGroupDefaults c prov ng meta) meta =
     SetNodeGroupDefaults c prov ng meta"
proof -
  have "NodeGroup.KubeletExtraConfig (fieldDefaults c ng meta) = Some (docOf ng)"
    by (simp add: fieldDefaults_def)
  then obtain d where d:
    "fst (SetKubeletExtraConfigDefaults prov (fieldDefaults c ng meta) meta) =
       (fieldDefaults c ng meta)\<lparr>NodeGroup.KubeletExtraConfig := Some d\<rparr>"
    using SetKubeletExtraConfigDefaults_shape by blast
  have "SetNodeGroupDefaults c prov (SetNodeGroupDefaults c prov ng meta) meta =
        fst (SetKubeletExtraConfigDefaults prov
              (fst (SetKubeletExtraConfigDefaults prov (fieldDefaults c ng meta) meta)) meta)"
    by (simp add: SetNodeGroupDefaults_eq [of c prov _ meta] d fieldDefaults_idem)
  then show ?thesis
    by (simp add: SetKubeletExtraConfigDefaults_idem SetNodeGroupDefaults_eq [of c prov ng meta])
qed

lemma if_update_managed:
  "(if b then r\<lparr>ManagedNodeGroup.AMIFamily := x\<rparr> else r) =
     r\<lparr>ManagedNodeGroup.AMIFamily := (if b then x else ManagedNodeGroup.AMIFamily r)\<rparr>"
  "(if b then r\<lparr>ManagedNodeGroup.InstanceType := y\<rparr> else r) =
     r\<lparr>ManagedNodeGroup.InstanceType := (if b then y else ManagedNodeGroup.InstanceType r)\<rparr>"
  "(if b then r\<lparr>ManagedNodeGroup.ScalingConfig := z\<rparr> else r) =
     r\<lparr>ManagedNodeGroup.ScalingConfig := (if b then z else ManagedNodeGroup.ScalingConfig r)\<rparr>"
  by simp_all

lemma SetManagedNodeGroupDefaults_eq:
  "SetManagedNodeGroupDefaults c ng meta = managedFieldDefaults c ng meta"
  by (simp add: SetManagedNodeGroupDefaults_def managedFieldDefaults_def Let_def if_update_managed
      split del: if_split cong del: if_weak_cong)

lemma tags_idem:
  "((((t(a \<mapsto> x))(b \<mapsto> y))(a \<mapsto> x))(b \<mapsto> y)) = ((t(a \<mapsto> x))(b \<mapsto> y))"
  by (auto simp: fun_eq_iff)

lemma managedFieldDefaults_idem:
  "managedFieldDefaults c (managedFieldDefaults c ng meta) meta = managedFieldDefaults c ng meta"
  by (simp add: managedFieldDefaults_def setSSHDefaults_idem setIAMDefaults_idem
      setDefaultNodeLabels_idem tags_idem)

text \<open>
  Claim C3. With the constants, the cluster and the provider's answers fixed, running
  SetNodeGroupDefaults on its own result gives that result again, and so does
  SetManagedNodeGroupDefaults.
\<close>

theorem node_group_defaults_idempotent:
  "SetNodeGroupDefaults c prov (SetNodeGroupDefaults c prov ng meta) meta =
     SetNodeGroupDefaults c prov ng meta
   \<and> SetManagedNodeGroupDefaults c (SetManagedNodeGroupDefaults c mng meta) meta =
     SetManagedNodeGroupDefaults c mng meta"
  by (simp add: SetNodeGroupDefaults_idem SetManagedNodeGroupDefaults_eq managedFieldDefaults_idem)

theorem node_group_defaults_idempotent_witness:
  "SetNodeGroupDefaults exampleConsts xlarge
     (SetNodeGroupDefaults exampleConsts xlarge presetNodeGroup exampleMeta) exampleMeta =
     SetNodeGroupDefaults exampleConsts xlarge presetNodeGroup exampleMeta
   \<and> SetManagedNodeGroupDefaults exampleConsts
       (SetManagedNodeGroupDefaults exampleConsts bareManagedNodeGroup exampleMeta) exampleMeta =
     SetManagedNodeGroupDefaults exampleConsts bareManagedNodeGroup exampleMeta"
  by (rule node_group_defaults_idempotent)

lemma SetNodeGroupDefaults_shape:
  "\<exists>d. SetNodeGroupDefaults c prov ng meta =
         (fieldDefaults c ng meta)\<lparr>NodeGroup.KubeletExtraConfig := Some d\<rparr>"
proof -
  have "NodeGroup.KubeletExtraConfig (fieldDefaults c ng meta) = Some (docOf ng)"
    by (simp add: fieldDefaults_def)
  then show ?thesis
    using SetKubeletExtraConfigDefaults_shape by (simp add: SetNodeGroupDefaults_eq)
qed

lemma SetNodeGroupDefaults_InstanceType:
  "NodeGroup.InstanceType (SetNodeGroupDefaults c prov ng meta) =
     NodeGroup.InstanceType (fieldDefaults c ng meta)"
  using SetNodeGroupDefaults_shape [of c prov ng meta] by auto

lemma docOf_fieldDefaults: "docOf (fieldDefaults c ng meta) = docOf ng"
  by (simp add: fieldDefaults_def docOf_def)

lemma SetNodeGroupDefaults_Inr:
  assumes "getCpuReservations prov (NodeGroup.InstanceType (SetNodeGroupDefaults c prov ng meta)) meta = Inr cpu"
    and "getMemReservations prov (NodeGroup.InstanceType (SetNodeGroupDefaults c prov ng meta)) meta = Inr mem"
    and "getEphemeralStorageReservations prov (NodeGroup.InstanceType (SetNodeGroupDefaults c prov ng meta)) meta = Inr eph"
  shows "NodeGroup.KubeletExtraConfig (SetNodeGroupDefaults c prov ng meta) =
     Some (mergeReservation (mergeReservation (mergeReservation (docOf ng) ''cpu'' cpu)
             ''memory'' mem) ''ephemeral-storage'' eph)"
  using assms unfolding SetNodeGroupDefaults_InstanceType
  by (simp add: SetNodeGroupDefaults_eq SetKubeletExtraConfigDefaults_Inr docOf_fieldDefaults)

lemma merged_other_keys:
  "k \<noteq> ''kubeReserved'' \<Longrightarrow>
   mergeReservation (mergeReservation (mergeReservation d ''cpu'' cpu) ''memory'' mem)
     ''ephemeral-storage'' eph k = d k"
  by (simp add: mergeReservation_other_keys)

lemma merged_kubeReserved:
  "getKubeReserved (mergeReservation (mergeReservation (mergeReservation d ''cpu'' cpu)
      ''memory'' mem) ''ephemeral-storage'' eph) r =
   (case getKubeReserved d r of
      Some v \<Rightarrow> Some v
    | None \<Rightarrow> if r = ''cpu'' then Some (IString cpu)
              else if r = ''memory'' then Some (IString mem)
              else if r = ''ephemeral-storage'' then Some (IString eph)
              else None)"
  by (auto simp: getKubeReserved_merge split: option.splits)

lemma SetNodeGroupDefaults_document:
  "NodeGroup.KubeletExtraConfig (SetNodeGroupDefaults c prov ng meta) =
     Some (case getCpuReservations prov (NodeGroup.InstanceType (SetNodeGroupDefaults c prov ng meta)) meta of
             Inl err \<Rightarrow> docOf ng
           | Inr cpu \<Rightarrow>
               (case getMemReservations prov
                       (NodeGroup.InstanceType (SetNodeGroupDefaults c prov ng meta)) meta of
                  Inl err \<Rightarrow> mergeReservation (docOf ng) ''cpu'' cpu
                | Inr mem \<Rightarrow>
                    (case getEphemeralStorageReservations prov
                            (NodeGroup.InstanceType (SetNodeGroupDefaults c prov ng meta)) meta of
                       Inl err \<Rightarrow>
                         mergeReservation (mergeReservation (docOf ng) ''cpu'' cpu) ''memory'' mem
                     | Inr eph \<Rightarrow>
                         mergeReservation (mergeReservation
                           (mergeReservation (docOf ng) ''cpu'' cpu) ''memory'' mem)
                           ''ephemeral-storage'' eph)))"
  unfolding SetNodeGroupDefaults_InstanceType
  by (simp add: SetNodeGroupDefaults_eq SetKubeletExtraConfigDefaults_cases docOf_fieldDefaults
      fieldDefaults_def split: sum.splits)

lemma getKubeReserved_merge_kept:
  "getKubeReserved d r = Some v \<Longrightarrow> getKubeReserved (mergeReservation d resType rsrcRes) r = Some v"
  by (auto simp: getKubeReserved_merge)

lemma getKubeReserved_merge_other:
  "r \<noteq> resType \<Longrightarrow> getKubeReserved (mergeReservation d resType rsrcRes) r = getKubeReserved d r"
  by (simp add: getKubeReserved_merge)

lemma getKubeReserved_merge_filled:
  "getKubeReserved d resType = None \<Longrightarrow>
   getKubeReserved (mergeReservation d resType rsrcRes) resType = Some (IString rsrcRes)"
  by (simp add: getKubeReserved_merge)

lemma docOf_SetNodeGroupDefaults:
  "docOf (SetNodeGroupDefaults c prov ng meta) =
     (case NodeGroup.KubeletExtraConfig (SetNodeGroupDefaults c prov ng meta) of
        None \<Rightarrow> Map.empty
      | Some d \<Rightarrow> d)"
  by (rule docOf_def)

lemma SetNodeGroupDefaults_keeps_kubeReserved:
  "getKubeReserved (docOf ng) r = Some v \<Longrightarrow>
   getKubeReserved (docOf (SetNodeGroupDefaults c prov ng meta)) r = Some v"
  unfolding docOf_SetNodeGroupDefaults SetNodeGroupDefaults_document
  by (simp add: getKubeReserved_merge_kept split: sum.splits)

text \<open>
  Claim C8, as stated, fails when the computation for a resource type the caller pre-set
  fails: with cpu pre-set to "200m" on an instance type of 36 vCPUs, a count that is not in
  the CPU table, the pass stops at the cpu step. The caller's cpu value is kept, but memory
  and ephemeral-storage, which were absent and whose computations succeed with "5.96Mi" and
  "1.25Gi", receive no value.
\<close>

theorem preset_cpu_blocks_other_reservations:
  "getMemReservations nineXlarge ''c5.9xlarge'' exampleMeta = Inr ''5.96Mi''
   \<and> getEphemeralStorageReservations nineXlarge ''c5.9xlarge'' exampleMeta = Inr ''1.25Gi''
   \<and> getKubeReserved (docOf cpuPresetNodeGroup) ''memory'' = None
   \<and> getKubeReserved (docOf cpuPresetNodeGroup) ''ephemeral-storage'' = None
   \<and> getKubeReserved
        (docOf (SetNodeGroupDefaults exampleConsts nineXlarge cpuPresetNodeGroup exampleMeta))
        ''cpu'' = Some (IString ''200m'')
   \<and> getKubeReserved
        (docOf (SetNodeGroupDefaults exampleConsts nineXlarge cpuPresetNodeGroup exampleMeta))
        ''memory'' = None
   \<and> getKubeReserved
        (docOf (SetNodeGroupDefaults exampleConsts nineXlarge cpuPresetNodeGroup exampleMeta))
        ''ephemeral-storage'' = None"
proof -
  have m: "getMemReservations nineXlarge ''c5.9xlarge'' exampleMeta = Inr ''5.96Mi''"
    by code_simp
  have e: "getEphemeralStorageReservations nineXlarge ''c5.9xlarge'' exampleMeta = Inr ''1.25Gi''"
    by code_simp
  have it: "NodeGroup.InstanceType (fieldDefaults exampleConsts cpuPresetNodeGroup exampleMeta) =
              ''c5.9xlarge''"
    by (simp add: fieldDefaults_def cpuPresetNodeGroup_def bareNodeGroup_def)
  have c: "getCpuReservations nineXlarge ''c5.9xlarge'' exampleMeta =
             Inl (Error (''Could not find suggested core reservation for instance type: c5.9xlarge''
                         @ [CHR 0x0A]))"
    by (simp add: getCpuReservations_def getInstanceTypeCores_def getInstanceTypeInfo_def
        nineXlarge_def answering_def facts_def cpuAllocations_eq)
  have r: "docOf (SetNodeGroupDefaults exampleConsts nineXlarge cpuPresetNodeGroup exampleMeta) =
             docOf cpuPresetNodeGroup"
    unfolding docOf_SetNodeGroupDefaults SetNodeGroupDefaults_document
      SetNodeGroupDefaults_InstanceType it
    by (simp add: c)
  have d: "docOf cpuPresetNodeGroup = [''kubeReserved'' \<mapsto> IMap [''cpu'' \<mapsto> IString ''200m'']]"
    by (simp add: docOf_def cpuPresetNodeGroup_def bareNodeGroup_def)
  have g: "getKubeReserved (docOf cpuPresetNodeGroup) = [''cpu'' \<mapsto> IString ''200m'']"
    by (simp add: d getKubeReserved_def)
  show ?thesis
    by (simp add: m e r g)
qed

text \<open>
  Claim C8, amended. One merge that computes a value leaves every key of the document other
  than "kubeReserved" as it was, leaves every entry of the kubeReserved map other than the
  merged resource type as it was, keeps a value the caller had set for the resource type,
  and stores the computed value when there was none; a merge whose computation fails leaves
  the node group as it was. After SetNodeGroupDefaults, whatever the computations return,
  every key of the document other than "kubeReserved" is as it was, every value the caller
  had set in the kubeReserved map is unchanged, and every entry of that map other than cpu,
  memory and ephemeral-storage is as it was. A resource type that was absent holds its
  computed value when its computation and the computations of the resource types before it,
  in the order cpu, memory, ephemeral-storage, succeed.
\<close>

theorem reservation_merge_keeps_caller_values:
  "(NodeGroup.KubeletExtraConfig ng = Some kec \<and> fn (NodeGroup.InstanceType ng) meta = Inr rsrcRes \<longrightarrow>
      (\<exists>kec'. setReservationDefault ng resType meta fn =
                 (ng\<lparr>NodeGroup.KubeletExtraConfig := Some kec'\<rparr>, None)
         \<and> (\<forall>k. k \<noteq> ''kubeReserved'' \<longrightarrow> kec' k = kec k)
         \<and> kec' ''kubeReserved'' = Some (IMap (getKubeReserved kec'))
         \<and> (\<forall>r. r \<noteq> resType \<longrightarrow> getKubeReserved kec' r = getKubeReserved kec r)
         \<and> getKubeReserved kec' resType =
             (case getKubeReserved kec resType of
                Some v \<Rightarrow> Some v
              | None \<Rightarrow> Some (IString rsrcRes))))
   \<and> (fn (NodeGroup.InstanceType ng) meta = Inl err \<longrightarrow>
        setReservationDefault ng resType meta fn = (ng, Some err))
   \<and> (NodeGroup.KubeletExtraConfig ng = Some kec \<longrightarrow>
      (\<exists>kec'. NodeGroup.KubeletExtraConfig (SetNodeGroupDefaults c prov ng meta) = Some kec'
         \<and> (\<forall>k. k \<noteq> ''kubeReserved'' \<longrightarrow> kec' k = kec k)
         \<and> (\<forall>r v. getKubeReserved kec r = Some v \<longrightarrow> getKubeReserved kec' r = Some v)
         \<and> (\<forall>r. r \<noteq> ''cpu'' \<and> r \<noteq> ''memory'' \<and> r \<noteq> ''ephemeral-storage'' \<longrightarrow>
                getKubeReserved kec' r = getKubeReserved kec r)
         \<and> (getKubeReserved kec ''cpu'' = None
              \<and> getCpuReservations prov
                   (NodeGroup.InstanceType (SetNodeGroupDefaults c prov ng meta)) meta = Inr cpu \<longrightarrow>
              getKubeReserved kec' ''cpu'' = Some (IString cpu))
         \<and> (getKubeReserved kec ''memory'' = None
              \<and> getCpuReservations prov
                   (NodeGroup.InstanceType (SetNodeGroupDefaults c prov ng meta)) meta = Inr cpu
              \<and> getMemReservations prov
                   (NodeGroup.InstanceType (SetNodeGroupDefaults c prov ng meta)) meta = Inr mem \<longrightarrow>
              getKubeReserved kec' ''memory'' = Some (IString mem))
         \<and> (getKubeReserved kec ''ephemeral-storage'' = None
              \<and> getCpuReservations prov
                   (NodeGroup.InstanceType (SetNodeGroupDefaults c prov ng meta)) meta = Inr cpu
              \<and> getMemReservations prov
                   (NodeGroup.InstanceType (SetNodeGroupDefaults c prov ng meta)) meta = Inr mem
              \<and> getEphemeralStorageReservations prov
                   (NodeGroup.InstanceType (SetNodeGroupDefaults c prov ng meta)) meta = Inr eph \<longrightarrow>
              getKubeReserved kec' ''ephemeral-storage'' = Some (IString eph))))"
proof (intro conjI impI)
  assume a: "NodeGroup.KubeletExtraConfig ng = Some kec \<and> fn (NodeGroup.InstanceType ng) meta = Inr rsrcRes"
  then have doc: "docOf ng = kec"
    by (simp add: docOf_def)
  show "\<exists>kec'. setReservationDefault ng resType meta fn =
                 (ng\<lparr>NodeGroup.KubeletExtraConfig := Some kec'\<rparr>, None)
         \<and> (\<forall>k. k \<noteq> ''kubeReserved'' \<longrightarrow> kec' k = kec k)
         \<and> kec' ''kubeReserved'' = Some (IMap (getKubeReserved kec'))
         \<and> (\<forall>r. r \<noteq> resType \<longrightarrow> getKubeReserved kec' r = getKubeReserved kec r)
         \<and> getKubeReserved kec' resType =
             (case getKubeReserved kec resType of
                Some v \<Rightarrow> Some v
              | None \<Rightarrow> Some (IString rsrcRes))"
  proof (intro exI conjI)
    show "setReservationDefault ng resType meta fn =
            (ng\<lparr>NodeGroup.KubeletExtraConfig := Some (mergeReservation kec resType rsrcRes)\<rparr>, None)"
      using a doc by (simp add: setReservationDefault_Inr)
    show "\<forall>k. k \<noteq> ''kubeReserved'' \<longrightarrow> mergeReservation kec resType rsrcRes k = kec k"
      by (simp add: mergeReservation_other_keys)
    show "mergeReservation kec resType rsrcRes ''kubeReserved'' =
            Some (IMap (getKubeReserved (mergeReservation kec resType rsrcRes)))"
      by (rule mergeReservation_kubeReserved)
    show "\<forall>r. r \<noteq> resType \<longrightarrow>
            getKubeReserved (mergeReservation kec resType rsrcRes) r = getKubeReserved kec r"
      by (simp add: getKubeReserved_merge)
    show "getKubeReserved (mergeReservation kec resType rsrcRes) resType =
            (case getKubeReserved kec resType of
               Some v \<Rightarrow> Some v
             | None \<Rightarrow> Some (IString rsrcRes))"
      by (simp add: getKubeReserved_merge split: option.splits)
  qed
next
  assume "fn (NodeGroup.InstanceType ng) meta = Inl err"
  then show "setReservationDefault ng resType meta fn = (ng, Some err)"
    by (rule setReservationDefault_Inl)
next
  assume a: "NodeGroup.KubeletExtraConfig ng = Some kec"
  then have doc: "docOf ng = kec"
    by (simp add: docOf_def)
  let ?it = "NodeGroup.InstanceType (SetNodeGroupDefaults c prov ng meta)"
  define kec' where "kec' =
    (case getCpuReservations prov ?it meta of
       Inl err \<Rightarrow> kec
     | Inr cpu \<Rightarrow>
         (case getMemReservations prov ?it meta of
            Inl err \<Rightarrow> mergeReservation kec ''cpu'' cpu
          | Inr mem \<Rightarrow>
              (case getEphemeralStorageReservations prov ?it meta of
                 Inl err \<Rightarrow> mergeReservation (mergeReservation kec ''cpu'' cpu) ''memory'' mem
               | Inr eph \<Rightarrow>
                   mergeReservation (mergeReservation (mergeReservation kec ''cpu'' cpu)
                     ''memory'' mem) ''ephemeral-storage'' eph)))"
  have res: "NodeGroup.KubeletExtraConfig (SetNodeGroupDefaults c prov ng meta) = Some kec'"
    unfolding kec'_def doc [symmetric] by (rule SetNodeGroupDefaults_document)
  have frame: "\<forall>k. k \<noteq> ''kubeReserved'' \<longrightarrow> kec' k = kec k"
    by (simp add: kec'_def mergeReservation_other_keys split: sum.splits)
  have kept: "\<forall>r v. getKubeReserved kec r = Some v \<longrightarrow> getKubeReserved kec' r = Some v"
    by (simp add: kec'_def getKubeReserved_merge_kept split: sum.splits)
  have others: "\<forall>r. r \<noteq> ''cpu'' \<and> r \<noteq> ''memory'' \<and> r \<noteq> ''ephemeral-storage'' \<longrightarrow>
                  getKubeReserved kec' r = getKubeReserved kec r"
    by (simp add: kec'_def getKubeReserved_merge_other split: sum.splits)
  have fc: "getKubeReserved kec ''cpu'' = None \<and> getCpuReservations prov ?it meta = Inr cpu \<longrightarrow>
              getKubeReserved kec' ''cpu'' = Some (IString cpu)"
    by (simp add: kec'_def getKubeReserved_merge_other getKubeReserved_merge_filled
        split: sum.splits)
  have fm: "getKubeReserved kec ''memory'' = None
              \<and> getCpuReservations prov ?it meta = Inr cpu
              \<and> getMemReservations prov ?it meta = Inr mem \<longrightarrow>
              getKubeReserved kec' ''memory'' = Some (IString mem)"
    by (simp add: kec'_def getKubeReserved_merge_other getKubeReserved_merge_filled
        split: sum.splits)
  have fe: "getKubeReserved kec ''ephemeral-storage'' = None
              \<and> getCpuReservations prov ?it meta = Inr cpu
              \<and> getMemReservations prov ?it meta = Inr mem
              \<and> getEphemeralStorageReservations prov ?it meta = Inr eph \<longrightarrow>
              getKubeReserved kec' ''ephemeral-storage'' = Some (IString eph)"
    by (simp add: kec'_def getKubeReserved_merge_other getKubeReserved_merge_filled
        split: sum.splits)
  show "\<exists>kec'. NodeGroup.KubeletExtraConfig (SetNodeGroupDefaults c prov ng meta) = Some kec'
         \<and> (\<forall>k. k \<noteq> ''kubeReserved'' \<longrightarrow> kec' k = kec k)
         \<and> (\<forall>r v. getKubeReserved kec r = Some v \<longrightarrow> getKubeReserved kec' r = Some v)
         \<and> (\<forall>r. r \<noteq> ''cpu'' \<and> r \<noteq> ''memory'' \<and> r \<noteq> ''ephemeral-storage'' \<longrightarrow>
                getKubeReserved kec' r = getKubeReserved kec r)
         \<and> (getKubeReserved kec ''cpu'' = None
              \<and> getCpuReservations prov ?it meta = Inr cpu \<longrightarrow>
              getKubeReserved kec' ''cpu'' = Some (IString cpu))
         \<and> (getKubeReserved kec ''memory'' = None
              \<and> getCpuReservations prov ?it meta = Inr cpu
              \<and> getMemReservations prov ?it meta = Inr mem \<longrightarrow>
              getKubeReserved kec' ''memory'' = Some (IString mem))
         \<and> (getKubeReserved kec ''ephemeral-storage'' = None
              \<and> getCpuReservations prov ?it meta = Inr cpu
              \<and> getMemReservations prov ?it meta = Inr mem
              \<and> getEphemeralStorageReservations prov ?it meta = Inr eph \<longrightarrow>
              getKubeReserved kec' ''ephemeral-storage'' = Some (IString eph))"
    using res frame kept others fc fm fe by (intro exI [of _ kec'] conjI)
qed

theorem reservation_merge_keeps_caller_values_witness:
  "\<exists>kec'. NodeGroup.KubeletExtraConfig
            (SetNodeGroupDefaults exampleConsts xlarge presetNodeGroup exampleMeta) = Some kec'
     \<and> kec' ''maxPods'' = Some (INumber 110)
     \<and> getKubeReserved kec' ''memory'' = Some (IString ''500Mi'')
     \<and> getKubeReserved kec' ''cpu'' = Some (IString ''140m'')
     \<and> getKubeReserved kec' ''ephemeral-storage'' = Some (IString ''10Gi'')"
proof -
  let ?kec = "[''kubeReserved'' \<mapsto> IMap [''memory'' \<mapsto> IString ''500Mi''],
               ''maxPods'' \<mapsto> INumber 110]"
  let ?it = "NodeGroup.InstanceType
               (SetNodeGroupDefaults exampleConsts xlarge presetNodeGroup exampleMeta)"
  have k: "NodeGroup.KubeletExtraConfig presetNodeGroup = Some ?kec"
    by (simp add: presetNodeGroup_def bareNodeGroup_def)
  have g: "getKubeReserved ?kec = [''memory'' \<mapsto> IString ''500Mi'']"
    by (simp add: getKubeReserved_def)
  note inst = reservation_merge_keeps_caller_values
         [of presetNodeGroup ?kec "getCpuReservations xlarge" exampleMeta "''140m''" "''cpu''"
             "Error []" exampleConsts xlarge "''140m''" "''2.6Mi''" "''10Gi''",
          THEN conjunct2, THEN conjunct2, THEN mp, OF k]
  then obtain kec' where kec':
    "NodeGroup.KubeletExtraConfig
       (SetNodeGroupDefaults exampleConsts xlarge presetNodeGroup exampleMeta) = Some kec'"
    "\<forall>k. k \<noteq> ''kubeReserved'' \<longrightarrow> kec' k = ?kec k"
    "\<forall>r v. getKubeReserved ?kec r = Some v \<longrightarrow> getKubeReserved kec' r = Some v"
    "getKubeReserved ?kec ''cpu'' = None
       \<and> getCpuReservations xlarge ?it exampleMeta = Inr ''140m'' \<longrightarrow>
       getKubeReserved kec' ''cpu'' = Some (IString ''140m'')"
    "getKubeReserved ?kec ''ephemeral-storage'' = None
       \<and> getCpuReservations xlarge ?it exampleMeta = Inr ''140m''
       \<and> getMemReservations xlarge ?it exampleMeta = Inr ''2.6Mi''
       \<and> getEphemeralStorageReservations xlarge ?it exampleMeta = Inr ''10Gi'' \<longrightarrow>
       getKubeReserved kec' ''ephemeral-storage'' = Some (IString ''10Gi'')"
    by (elim exE conjE)
  have "kec' ''maxPods'' = Some (INumber 110)"
    using kec'(2) by simp
  moreover have "getKubeReserved kec' ''memory'' = Some (IString ''500Mi'')"
    using kec'(3) by (simp add: g)
  moreover have "getKubeReserved kec' ''cpu'' = Some (IString ''140m'')"
    using kec'(4) by (simp add: g xlarge_cpu)
  moreover have "getKubeReserved kec' ''ephemeral-storage'' = Some (IString ''10Gi'')"
    using kec'(5) by (simp add: g xlarge_cpu xlarge_mem xlarge_eph)
  ultimately show ?thesis
    using kec'(1) by (intro exI [of _ kec']) simp
qed

lemma hasReservations_merged:
  "hasReservations (Some (mergeReservation (mergeReservation (mergeReservation d ''cpu'' cpu)
      ''memory'' mem) ''ephemeral-storage'' eph))"
  by (simp add: hasReservations_def mergeReservation_kubeReserved merged_kubeReserved
      split: option.splits)

lemma SetManagedNodeGroupDefaults_KubeletExtraConfig:
  "ManagedNodeGroup.KubeletExtraConfig (SetManagedNodeGroupDefaults c mng meta) =
     ManagedNodeGroup.KubeletExtraConfig mng"
  by (simp add: SetManagedNodeGroupDefaults_eq managedFieldDefaults_def)

text \<open>
  Claim C2, as stated, fails for managed node groups: SetManagedNodeGroupDefaults completes
  on a managed group without a kubelet document, and on one whose document holds only
  maxPods, and leaves no kubeReserved entry for cpu, memory or ephemeral-storage.
\<close>

theorem managed_defaults_reserve_nothing:
  "\<not> hasReservations (ManagedNodeGroup.KubeletExtraConfig
        (SetManagedNodeGroupDefaults exampleConsts bareManagedNodeGroup exampleMeta))
   \<and> \<not> hasReservations (ManagedNodeGroup.KubeletExtraConfig
        (SetManagedNodeGroupDefaults exampleConsts podsManagedNodeGroup exampleMeta))
   \<and> ManagedNodeGroup.KubeletExtraConfig
        (SetManagedNodeGroupDefaults exampleConsts podsManagedNodeGroup exampleMeta) =
      Some [''maxPods'' \<mapsto> INumber 110]"
  by (simp add: SetManagedNodeGroupDefaults_KubeletExtraConfig hasReservations_def
      bareManagedNodeGroup_def podsManagedNodeGroup_def)

text \<open>
  Claim C2, amended. For every unmanaged node group on which the three reservation
  computations succeed for its defaulted instance type, the kubelet document after
  SetNodeGroupDefaults holds a kubeReserved map with entries for cpu, memory and
  ephemeral-storage, and every value the caller had set in that map is unchanged.
  SetManagedNodeGroupDefaults does no reservation defaulting: it leaves the kubelet document
  of a managed group as it was.
\<close>

theorem unmanaged_defaults_reserve_three_keys:
  "(getCpuReservations prov (NodeGroup.InstanceType (SetNodeGroupDefaults c prov ng meta)) meta = Inr cpu
      \<and> getMemReservations prov (NodeGroup.InstanceType (SetNodeGroupDefaults c prov ng meta)) meta = Inr mem
      \<and> getEphemeralStorageReservations prov
           (NodeGroup.InstanceType (SetNodeGroupDefaults c prov ng meta)) meta = Inr eph
    \<longrightarrow> hasReservations (NodeGroup.KubeletExtraConfig (SetNodeGroupDefaults c prov ng meta))
        \<and> (\<forall>r v. getKubeReserved (docOf ng) r = Some v \<longrightarrow>
               getKubeReserved (docOf (SetNodeGroupDefaults c prov ng meta)) r = Some v))
   \<and> ManagedNodeGroup.KubeletExtraConfig (SetManagedNodeGroupDefaults c mng meta) =
       ManagedNodeGroup.KubeletExtraConfig mng"
  by (simp add: SetNodeGroupDefaults_Inr hasReservations_merged
      SetNodeGroupDefaults_keeps_kubeReserved SetManagedNodeGroupDefaults_KubeletExtraConfig)

theorem unmanaged_defaults_reserve_three_keys_witness:
  "hasReservations (NodeGroup.KubeletExtraConfig
      (SetNodeGroupDefaults exampleConsts xlarge bareNodeGroup exampleMeta))
   \<and> ManagedNodeGroup.KubeletExtraConfig
        (SetManagedNodeGroupDefaults exampleConsts bareManagedNodeGroup exampleMeta) = None
   \<and> hasReservations (NodeGroup.KubeletExtraConfig
        (SetNodeGroupDefaults exampleConsts xlarge presetNodeGroup exampleMeta))
   \<and> getKubeReserved
        (docOf (SetNodeGroupDefaults exampleConsts xlarge presetNodeGroup exampleMeta))
        ''memory'' = Some (IString ''500Mi'')"
proof -
  have g: "getKubeReserved (docOf presetNodeGroup) ''memory'' = Some (IString ''500Mi'')"
    by (simp add: docOf_def presetNodeGroup_def bareNodeGroup_def getKubeReserved_def)
  have bare: "hasReservations (NodeGroup.KubeletExtraConfig
                 (SetNodeGroupDefaults exampleConsts xlarge bareNodeGroup exampleMeta))
              \<and> ManagedNodeGroup.KubeletExtraConfig
                   (SetManagedNodeGroupDefaults exampleConsts bareManagedNodeGroup exampleMeta) = None"
    using unmanaged_defaults_reserve_three_keys
            [of xlarge exampleConsts bareNodeGroup exampleMeta "''140m''" "''2.6Mi''" "''10Gi''"
                bareManagedNodeGroup]
    by (simp add: xlarge_cpu xlarge_mem xlarge_eph bareManagedNodeGroup_def)
  have preset: "hasReservations (NodeGroup.KubeletExtraConfig
                   (SetNodeGroupDefaults exampleConsts xlarge presetNodeGroup exampleMeta))
                \<and> (\<forall>r v. getKubeReserved (docOf presetNodeGroup) r = Some v \<longrightarrow>
                       getKubeReserved
                         (docOf (SetNodeGroupDefaults exampleConsts xlarge presetNodeGroup
                            exampleMeta)) r = Some v)"
    using unmanaged_defaults_reserve_three_keys
            [of xlarge exampleConsts presetNodeGroup exampleMeta "''140m''" "''2.6Mi''" "''10Gi''"
                bareManagedNodeGroup, THEN conjunct1]
    by (simp add: xlarge_cpu xlarge_mem xlarge_eph)
  from preset g have "getKubeReserved
        (docOf (SetNodeGroupDefaults exampleConsts xlarge presetNodeGroup exampleMeta))
        ''memory'' = Some (IString ''500Mi'')"
    by blast
  with bare preset show ?thesis
    by (intro conjI) (rule conjunct1, assumption, rule conjunct2, assumption,
        rule conjunct1, assumption, assumption)
qed

lemma provider_failure_propagates:
  "prov it meta = Inl err \<Longrightarrow>
   getCpuReservations prov it meta = Inl err
   \<and> getMemReservations prov it meta = Inl err
   \<and> getEphemeralStorageReservations prov it meta = Inl err"
  by (simp add: getCpuReservations_def getInstanceTypeCores_def getMemReservations_def
      getInstanceTypeMem_def getEphemeralStorageReservations_def getInstanceTypeStorage_def
      getInstanceTypeInfo_def)

lemma SetKubeletExtraConfigDefaults_cpu_failure:
  "getCpuReservations prov (NodeGroup.InstanceType ng) meta = Inl err \<Longrightarrow>
   SetKubeletExtraConfigDefaults prov ng meta = (ng, Some err)"
  by (simp add: SetKubeletExtraConfigDefaults_cases)

lemma SetNodeGroupDefaults_cpu_failure:
  "getCpuReservations prov (NodeGroup.InstanceType (fieldDefaults c ng meta)) meta = Inl err \<Longrightarrow>
   SetNodeGroupDefaults c prov ng meta = fieldDefaults c ng meta"
  by (simp add: SetNodeGroupDefaults_eq SetKubeletExtraConfigDefaults_cpu_failure)

lemma bare_InstanceType:
  "NodeGroup.InstanceType (fieldDefaults exampleConsts bareNodeGroup exampleMeta) = ''m5.large''"
  by (simp add: fieldDefaults_def bareNodeGroup_def HasMixedInstances_def exampleConsts_def)

text \<open>
  Claim C1 at a failing input. With a provider whose lookups fail, and with one that
  reports 3 vCPUs, SetKubeletExtraConfigDefaults stops at the cpu step, leaves the node
  group as it received it and returns the error; SetNodeGroupDefaults, whose last statement
  is that call, returns the node group with its other fields defaulted and an empty kubelet
  document, and the error is gone.
\<close>

theorem reservation_failure_is_dropped:
  "SetKubeletExtraConfigDefaults failing (fieldDefaults exampleConsts bareNodeGroup exampleMeta)
       exampleMeta =
     (fieldDefaults exampleConsts bareNodeGroup exampleMeta,
      Some (Error ''RequestError: send request failed''))
   \<and> SetNodeGroupDefaults exampleConsts failing bareNodeGroup exampleMeta =
       fieldDefaults exampleConsts bareNodeGroup exampleMeta
   \<and> SetKubeletExtraConfigDefaults (answering (facts 3 4096 False 0))
       (fieldDefaults exampleConsts bareNodeGroup exampleMeta) exampleMeta =
     (fieldDefaults exampleConsts bareNodeGroup exampleMeta,
      Some (Error (''Could not find suggested core reservation for instance type: m5.large''
                   @ [CHR 0x0A])))
   \<and> SetNodeGroupDefaults exampleConsts (answering (facts 3 4096 False 0)) bareNodeGroup exampleMeta =
       fieldDefaults exampleConsts bareNodeGroup exampleMeta
   \<and> NodeGroup.KubeletExtraConfig (fieldDefaults exampleConsts bareNodeGroup exampleMeta) =
       Some Map.empty"
proof -
  have f: "getCpuReservations failing it exampleMeta =
             Inl (Error ''RequestError: send request failed'')" for it
    by (simp add: provider_failure_propagates failing_def)
  have t: "getCpuReservations (answering (facts 3 4096 False 0)) ''m5.large'' exampleMeta =
             Inl (Error (''Could not find suggested core reservation for instance type: m5.large''
                         @ [CHR 0x0A]))"
    by (simp add: getCpuReservations_def getInstanceTypeCores_def getInstanceTypeInfo_def
        answering_def facts_def cpuAllocations_eq)
  have d: "NodeGroup.KubeletExtraConfig (fieldDefaults exampleConsts bareNodeGroup exampleMeta) =
             Some Map.empty"
    by (simp add: fieldDefaults_def docOf_def bareNodeGroup_def)
  show ?thesis
    using f t d
    by (simp add: SetKubeletExtraConfigDefaults_cpu_failure SetNodeGroupDefaults_cpu_failure
        bare_InstanceType)
qed

subsection \<open>Memory reservation\<close>

lemma bracket_sum_4:
  "fadd (Dy 0 0) (fmul (float64_lit 25 100) (fsub (float64_lit 4 1) (Dy 0 0))) = float64_lit 1 1"
  by code_simp

lemma bracket_sum_8:
  "fadd (float64_lit 1 1) (fmul (float64_lit 20 100) (fsub (float64_lit 8 1) (float64_lit 4 1))) =
     float64_lit 18 10"
  by code_simp

lemma bracket_sum_16:
  "fadd (float64_lit 18 10) (fmul (float64_lit 10 100) (fsub (float64_lit 16 1) (float64_lit 8 1))) =
     float64_lit 26 10"
  by code_simp

lemma bracket_sum_128:
  "fadd (float64_lit 26 10) (fmul (float64_lit 6 100) (fsub (float64_lit 128 1) (float64_lit 16 1))) =
     float64_lit 932 100"
  by code_simp

lemma bracket_sum_65535:
  "fadd (float64_lit 932 100)
     (fmul (float64_lit 2 100) (fsub (float64_lit 65535 1) (float64_lit 128 1))) =
     float64_lit 131746 100"
  by code_simp

lemma memLoop_brackets:
  "memLoop memPercentages instMem (Dy 0 0) (Dy 0 0) =
     (if fle instMem (float64_lit 4 1)
      then fadd (Dy 0 0) (fmul (float64_lit 25 100) (fsub instMem (Dy 0 0)))
      else if fle instMem (float64_lit 8 1)
      then fadd (float64_lit 1 1) (fmul (float64_lit 20 100) (fsub instMem (float64_lit 4 1)))
      else if fle instMem (float64_lit 16 1)
      then fadd (float64_lit 18 10) (fmul (float64_lit 10 100) (fsub instMem (float64_lit 8 1)))
      else if fle instMem (float64_lit 128 1)
      then fadd (float64_lit 26 10) (fmul (float64_lit 6 100) (fsub instMem (float64_lit 16 1)))
      else if fle instMem (float64_lit 65535 1)
      then fadd (float64_lit 932 100) (fmul (float64_lit 2 100) (fsub instMem (float64_lit 128 1)))
      else float64_lit 131746 100)"
  by (simp add: memPercentages_def bracket_sum_4 bracket_sum_8 bracket_sum_16 bracket_sum_128
      bracket_sum_65535)

lemma sixGiB_instMem: "getInstanceTypeMem sixGiB [] exampleMeta = Inr (float64_lit 6 1)"
  by code_simp

lemma sixGiB_reserved:
  "fadd (float64_lit 1 1) (fmul (float64_lit 20 100) (fsub (float64_lit 6 1) (float64_lit 4 1))) =
     float64_lit 14 10"
  by code_simp

lemma sixGiB_bracket:
  "\<not> fle (float64_lit 6 1) (float64_lit 4 1) \<and> fle (float64_lit 6 1) (float64_lit 8 1)"
  by code_simp

lemma sixGiB_format: "formatMem (float64_lit 14 10) = ''1.4Mi''"
  by code_simp

lemma getInstanceTypeMem_any:
  "getInstanceTypeMem (answering info) it meta = getInstanceTypeMem (answering info) [] meta'"
  by (simp add: getInstanceTypeMem_def getInstanceTypeInfo_def answering_def)

text \<open>
  Claim C5. The memory size in GiB is the reported MiB size divided by 1024 and rounded to
  two decimals. The reservation is the progressive-bracket sum over the brackets (4, 0.25),
  (8, 0.20), (16, 0.10), (128, 0.06), (65535, 0.02), taken in ascending order and stopped at
  the first bracket whose upper bound is not below the total: the full earlier brackets
  contribute 1, 1.8, 2.6 and 9.32 in turn, and the bracket holding the total contributes its
  fraction of the part of the total above its lower bound. For 6144 MiB the total is 6, the
  reservation is 1 + 0.20 * 2 = 1.4, and the result is the string "1.4Mi".
\<close>

theorem getMemReservations_progressive_brackets:
  "(prov it meta = Inr out \<and> DescribeInstanceTypesOutput.InstanceTypes out = info # rest \<longrightarrow>
      getInstanceTypeMem prov it meta =
        ParseFloat (Sprintf_2f (fdiv (float64_of_int (SizeInMiB info)) (float64_lit 1024 1))))
   \<and> (getInstanceTypeMem prov it meta = Inr instMem \<longrightarrow>
      getMemReservations prov it meta =
        Inr (formatMem
          (if fle instMem (float64_lit 4 1)
           then fadd (Dy 0 0) (fmul (float64_lit 25 100) (fsub instMem (Dy 0 0)))
           else if fle instMem (float64_lit 8 1)
           then fadd (float64_lit 1 1) (fmul (float64_lit 20 100) (fsub instMem (float64_lit 4 1)))
           else if fle instMem (float64_lit 16 1)
           then fadd (float64_lit 18 10) (fmul (float64_lit 10 100) (fsub instMem (float64_lit 8 1)))
           else if fle instMem (float64_lit 128 1)
           then fadd (float64_lit 26 10) (fmul (float64_lit 6 100) (fsub instMem (float64_lit 16 1)))
           else if fle instMem (float64_lit 65535 1)
           then fadd (float64_lit 932 100)
                  (fmul (float64_lit 2 100) (fsub instMem (float64_lit 128 1)))
           else float64_lit 131746 100)))
   \<and> getInstanceTypeMem sixGiB it' meta' = Inr (float64_lit 6 1)
   \<and> memLoop memPercentages (float64_lit 6 1) (Dy 0 0) (Dy 0 0) = float64_lit 14 10
   \<and> getMemReservations sixGiB it' meta' = Inr ''1.4Mi''"
proof -
  have six: "getInstanceTypeMem sixGiB it' meta' = Inr (float64_lit 6 1)"
    using getInstanceTypeMem_any [of "facts 2 6144 False 0" it' meta' exampleMeta] sixGiB_instMem
    by (simp add: sixGiB_def)
  have loop: "memLoop memPercentages (float64_lit 6 1) (Dy 0 0) (Dy 0 0) = float64_lit 14 10"
    using sixGiB_bracket by (simp add: memLoop_brackets sixGiB_reserved)
  have a: "prov it meta = Inr out \<and> DescribeInstanceTypesOutput.InstanceTypes out = info # rest \<longrightarrow>
      getInstanceTypeMem prov it meta =
        ParseFloat (Sprintf_2f (fdiv (float64_of_int (SizeInMiB info)) (float64_lit 1024 1)))"
    by (simp add: getInstanceTypeMem_def getInstanceTypeInfo_def)
  show ?thesis
    using a six loop
    by (simp add: getMemReservations_def memLoop_brackets [symmetric] sixGiB_format)
qed

theorem getMemReservations_progressive_brackets_witness:
  "getInstanceTypeMem sixGiB ''t3.large'' exampleMeta =
     ParseFloat (Sprintf_2f (fdiv (float64_of_int 6144) (float64_lit 1024 1)))
   \<and> getInstanceTypeMem sixGiB ''t3.large'' exampleMeta = Inr (float64_lit 6 1)
   \<and> getMemReservations sixGiB ''t3.large'' exampleMeta =
       Inr (formatMem (fadd (float64_lit 1 1)
              (fmul (float64_lit 20 100) (fsub (float64_lit 6 1) (float64_lit 4 1)))))
   \<and> getMemReservations sixGiB ''t3.large'' exampleMeta = Inr ''1.4Mi''"
proof -
  note inst = getMemReservations_progressive_brackets
      [of sixGiB "''t3.large''" exampleMeta
          "\<lparr>DescribeInstanceTypesOutput.InstanceTypes = [facts 2 6144 False 0]\<rparr>"
          "facts 2 6144 False 0" "[]" "float64_lit 6 1" "''t3.large''" exampleMeta]
  have p: "sixGiB ''t3.large'' exampleMeta =
             Inr \<lparr>DescribeInstanceTypesOutput.InstanceTypes = [facts 2 6144 False 0]\<rparr>"
    by (simp add: sixGiB_def answering_def)
  have c1: "getInstanceTypeMem sixGiB ''t3.large'' exampleMeta =
     ParseFloat (Sprintf_2f (fdiv (float64_of_int 6144) (float64_lit 1024 1)))"
    using inst [THEN conjunct1] p by (simp add: facts_def)
  have c2: "getInstanceTypeMem sixGiB ''t3.large'' exampleMeta = Inr (float64_lit 6 1)"
    using inst by (elim conjE)
  have c3: "getMemReservations sixGiB ''t3.large'' exampleMeta =
       Inr (formatMem (fadd (float64_lit 1 1)
              (fmul (float64_lit 20 100) (fsub (float64_lit 6 1) (float64_lit 4 1)))))"
    using inst [THEN conjunct2, THEN conjunct1, THEN mp, OF c2] sixGiB_bracket by simp
  have c4: "getMemReservations sixGiB ''t3.large'' exampleMeta = Inr ''1.4Mi''"
    using inst by (elim conjE)
  show ?thesis
    using c1 c2 c3 c4 by (intro conjI)
qed

subsection \<open>Exact cases of the floating-point operations\<close>

text \<open>
  Rounding leaves a number of at most 53 significant bits as it is, so the conversion of an
  integer below \<open>2 ^ 53\<close> in magnitude and a division of such a number by 16 are exact; a
  larger integer is converted to a number of at least \<open>2 ^ 53\<close> in magnitude and of the same
  sign.
\<close>

declare normalize.simps [simp del] ndigits.simps [simp del] show_nat.simps [simp del]
  strip_zeros.simps [simp del]

lemma normalize_odd: "odd m \<Longrightarrow> normalize m e = Dy m e"
  by (subst normalize.simps) auto

lemma normalize_double: "m \<noteq> 0 \<Longrightarrow> normalize (2 * m) e = normalize m (e + 1)"
  by (subst normalize.simps) simp

lemma normalize_shift: "m \<noteq> 0 \<Longrightarrow> normalize (m * 2 ^ k) e = normalize m (e + int k)"
proof (induction k arbitrary: e)
  case 0
  then show ?case by simp
next
  case (Suc k)
  have "normalize (m * 2 ^ Suc k) e = normalize (2 * (m * 2 ^ k)) e"
    by (simp add: mult.commute mult.left_commute)
  also have "\<dots> = normalize (m * 2 ^ k) (e + 1)"
    using Suc.prems by (intro normalize_double) simp
  also have "\<dots> = normalize m (e + 1 + int k)"
    using Suc by simp
  finally show ?case by (simp add: add.commute add.left_commute)
qed

lemma normalize_spec:
  "m \<noteq> 0 \<Longrightarrow> normalize m e = Dy m' e' \<Longrightarrow> odd m' \<and> e \<le> e' \<and> m = m' * 2 ^ nat (e' - e)"
proof (induction m e rule: normalize.induct)
  case (1 m e)
  show ?case
  proof (cases "even m")
    case True
    with 1 have n: "normalize (m div 2) (e + 1) = Dy m' e'" and nz: "m div 2 \<noteq> 0"
      by (subst (asm) normalize.simps, auto)+
    from 1(1) [OF 1(2) True nz n]
    have ih: "odd m'" "e + 1 \<le> e'" "m div 2 = m' * 2 ^ nat (e' - (e + 1))"
      by auto
    have "nat (e' - e) = Suc (nat (e' - (e + 1)))"
      using ih(2) by simp
    moreover have "m = 2 * (m div 2)"
      using True by simp
    ultimately show ?thesis
      using ih by simp
  next
    case False
    with 1 have "Dy m e = Dy m' e'"
      by (subst (asm) normalize.simps) auto
    with False show ?thesis by simp
  qed
qed

lemma ndigits_pos: "0 < n \<Longrightarrow> ndigits 2 n = ndigits 2 (n div 2) + 1"
  by (subst ndigits.simps) simp

lemma ndigits_nonpos: "n \<le> 0 \<Longrightarrow> ndigits 2 n = 0"
  by (subst ndigits.simps) simp

lemma ndigits_upper: "0 \<le> n \<Longrightarrow> n < 2 ^ p \<Longrightarrow> ndigits 2 n \<le> int p"
proof (induction p arbitrary: n)
  case 0
  then have "n = 0" by simp
  then show ?case by (simp add: ndigits_nonpos)
next
  case (Suc p)
  show ?case
  proof (cases "n = 0")
    case True
    then show ?thesis by (simp add: ndigits_nonpos)
  next
    case False
    with Suc.prems have pos: "0 < n" by simp
    have "n div 2 < 2 ^ p" "0 \<le> n div 2"
      using Suc.prems by auto
    then have "ndigits 2 (n div 2) \<le> int p"
      using Suc.IH by simp
    then show ?thesis
      using pos by (simp add: ndigits_pos)
  qed
qed

lemma ndigits_pow2: "ndigits 2 (2 ^ j) = int j + 1"
proof (induction j)
  case 0
  show ?case by (simp add: ndigits_pos ndigits_nonpos)
next
  case (Suc j)
  have "ndigits 2 (2 ^ Suc j) = ndigits 2 ((2 ^ Suc j) div 2) + 1"
    by (intro ndigits_pos) simp
  then show ?case using Suc by simp
qed

lemma ilog_le: "ilog b n d \<le> ndigits b n - ndigits b d"
  by (simp add: ilog_def Let_def)

lemma rne_exact: "0 < d \<Longrightarrow> rne (q * d) d = q"
  by (simp add: rne_def Let_def)

lemma round_rat_exact_scaled:
  assumes "m \<noteq> 0" and "\<bar>m\<bar> < 2 ^ p" and "0 < p"
  shows "round_rat p (m * 2 ^ k) (2 ^ j) = normalize m (int k - int j)"
proof -
  define n where "n = m * 2 ^ k"
  define s where "s = ilog 2 \<bar>n\<bar> (2 ^ j) - (int p - 1)"
  have nz: "n \<noteq> 0"
    using assms(1) by (simp add: n_def)
  have "\<bar>n\<bar> < 2 ^ p * 2 ^ k"
    using assms(2) by (simp add: n_def abs_mult)
  then have "\<bar>n\<bar> < 2 ^ (p + k)"
    by (simp add: power_add)
  then have "ndigits 2 \<bar>n\<bar> \<le> int (p + k)"
    by (intro ndigits_upper) auto
  then have "ilog 2 \<bar>n\<bar> (2 ^ j) \<le> int p + int k - (int j + 1)"
    using ilog_le [of 2 "\<bar>n\<bar>" "2 ^ j"] by (simp add: ndigits_pow2)
  then have s: "s \<le> int k - int j"
    by (simp add: s_def)
  have r: "round_rat p n (2 ^ j) =
             normalize (if 0 \<le> s then rne n (2 ^ j * 2 ^ nat s) else rne (n * 2 ^ nat (- s)) (2 ^ j)) s"
    using nz by (simp add: round_rat_def s_def Let_def)
  show ?thesis
  proof (cases "0 \<le> s")
    case True
    define t where "t = k - (j + nat s)"
    have k: "k = t + (j + nat s)"
      using s True by (simp add: t_def)
    have "n = (m * 2 ^ t) * (2 ^ j * 2 ^ nat s)"
      by (simp add: n_def k power_add)
    then have "rne n (2 ^ j * 2 ^ nat s) = rne ((m * 2 ^ t) * (2 ^ j * 2 ^ nat s)) (2 ^ j * 2 ^ nat s)"
      by (rule arg_cong)
    also have "\<dots> = m * 2 ^ t"
      by (rule rne_exact) simp
    finally have "round_rat p n (2 ^ j) = normalize (m * 2 ^ t) s"
      using r True by simp
    also have "\<dots> = normalize m (s + int t)"
      using assms(1) by (rule normalize_shift)
    also have "s + int t = int k - int j"
      using s True by (simp add: t_def)
    finally show ?thesis
      by (simp add: n_def)
  next
    case False
    define t where "t = (k + nat (- s)) - j"
    have split: "k + nat (- s) = t + j"
      using s False by (simp add: t_def)
    have "n * 2 ^ nat (- s) = m * 2 ^ (k + nat (- s))"
      by (simp add: n_def power_add)
    also have "\<dots> = (m * 2 ^ t) * 2 ^ j"
      by (simp add: split power_add)
    finally have "rne (n * 2 ^ nat (- s)) (2 ^ j) = rne ((m * 2 ^ t) * 2 ^ j) (2 ^ j)"
      by (rule arg_cong)
    also have "\<dots> = m * 2 ^ t"
      by (rule rne_exact) simp
    finally have "round_rat p n (2 ^ j) = normalize (m * 2 ^ t) s"
      using r False by simp
    also have "\<dots> = normalize m (s + int t)"
      using assms(1) by (rule normalize_shift)
    also have "s + int t = int k - int j"
      using s False by (simp add: t_def)
    finally show ?thesis
      by (simp add: n_def)
  qed
qed

lemma float64_of_int_exact:
  "n \<noteq> 0 \<Longrightarrow> \<bar>n\<bar> < 2 ^ 53 \<Longrightarrow> float64_of_int n = normalize n 0"
  using round_rat_exact_scaled [of n 53 0 0] by (simp add: float64_of_int_def)

lemma lit_16: "float64_lit 16 1 = Dy 1 4"
  by code_simp

lemma lit_1: "float64_lit 1 1 = Dy 1 0"
  by code_simp

lemma lit_15: "float64_lit 15 1 = Dy 15 0"
  by code_simp

lemma fdiv_16_odd:
  assumes "odd m" and "\<bar>m\<bar> < 2 ^ 53" and "0 \<le> e"
  shows "fdiv (Dy m e) (float64_lit 16 1) = Dy m (e - 4)"
proof -
  have mnz: "m \<noteq> 0"
    using assms(1) by auto
  show ?thesis
  proof (cases "0 \<le> e - 4")
    case True
    have "round_rat 53 (m * 2 ^ nat (e - 4)) (2 ^ 0) = normalize m (int (nat (e - 4)) - int 0)"
      using mnz assms(2) by (intro round_rat_exact_scaled) auto
    also have "\<dots> = Dy m (e - 4)"
      using True assms(1) by (simp add: normalize_odd)
    finally show ?thesis
      using True by (simp add: lit_16 Let_def)
  next
    case False
    have "round_rat 53 (m * 2 ^ 0) (2 ^ nat (- (e - 4))) = normalize m (int 0 - int (nat (- (e - 4))))"
      using mnz assms(2) by (intro round_rat_exact_scaled) auto
    also have "\<dots> = Dy m (e - 4)"
      using False assms(1) by (simp add: normalize_odd)
    finally show ?thesis
      using False by (simp add: lit_16 Let_def)
  qed
qed

lemma fle_sixteenths_value:
  assumes "0 \<le> e"
  shows "fle (Dy m (e - 4)) (Dy c 0) = (m * 2 ^ nat e \<le> 16 * c)"
    and "fle (Dy c 0) (Dy m (e - 4)) = (16 * c \<le> m * 2 ^ nat e)"
proof -
  consider "e = 0" | "e = 1" | "e = 2" | "e = 3" | "4 \<le> e"
    using assms by linarith
  then have "fle (Dy m (e - 4)) (Dy c 0) = (m * 2 ^ nat e \<le> 16 * c)
             \<and> fle (Dy c 0) (Dy m (e - 4)) = (16 * c \<le> m * 2 ^ nat e)"
  proof cases
    case 5
    then have "nat e = nat (e - 4) + 4"
      by simp
    then have p: "(2::int) ^ nat e = 2 ^ nat (e - 4) * 16"
      by (simp add: power_add)
    have "fle (Dy m (e - 4)) (Dy c 0) = (m * 2 ^ nat (e - 4) \<le> c)"
      and "fle (Dy c 0) (Dy m (e - 4)) = (c \<le> m * 2 ^ nat (e - 4))"
      using 5 by (simp_all add: Let_def min_def)
    then show ?thesis
      by (simp add: p)
  qed (simp_all add: Let_def min_def mult.commute)
  then show "fle (Dy m (e - 4)) (Dy c 0) = (m * 2 ^ nat e \<le> 16 * c)"
    and "fle (Dy c 0) (Dy m (e - 4)) = (16 * c \<le> m * 2 ^ nat e)"
    by simp_all
qed

lemma ndigits_bounds:
  "0 < n \<Longrightarrow> 0 < ndigits 2 n \<and> 2 ^ nat (ndigits 2 n - 1) \<le> n \<and> n < 2 ^ nat (ndigits 2 n)"
proof (induction "nat n" arbitrary: n rule: less_induct)
  case less
  show ?case
  proof (cases "n div 2 = 0")
    case True
    with less.prems have "n = 1" by presburger
    then show ?thesis
      by (simp add: ndigits_pos ndigits_nonpos)
  next
    case False
    with less.prems have pos: "0 < n div 2" by presburger
    have "nat (n div 2) < nat n"
      using less.prems by simp
    from less.hyps [OF this pos]
    have ih: "0 < ndigits 2 (n div 2)" "2 ^ nat (ndigits 2 (n div 2) - 1) \<le> n div 2"
      "n div 2 < 2 ^ nat (ndigits 2 (n div 2))"
      by auto
    have d: "ndigits 2 n = ndigits 2 (n div 2) + 1"
      using less.prems by (rule ndigits_pos)
    have k1: "nat (ndigits 2 n - 1) = nat (ndigits 2 (n div 2))"
      using d by simp
    have k2: "nat (ndigits 2 n) = Suc (nat (ndigits 2 (n div 2)))"
      using ih(1) d by simp
    have k3: "nat (ndigits 2 (n div 2)) = Suc (nat (ndigits 2 (n div 2) - 1))"
      using ih(1) by simp
    have "2 * 2 ^ nat (ndigits 2 (n div 2) - 1) \<le> n"
      using ih(2) by presburger
    then have lo: "2 ^ nat (ndigits 2 (n div 2)) \<le> n"
      by (subst k3) simp
    have "n < 2 * 2 ^ nat (ndigits 2 (n div 2))"
      using ih(3) by presburger
    then have hi: "n < 2 ^ Suc (nat (ndigits 2 (n div 2)))"
      by simp
    show ?thesis
    proof (intro conjI)
      show "0 < ndigits 2 n"
        using d ih(1) by simp
      show "2 ^ nat (ndigits 2 n - 1) \<le> n"
        by (subst k1) (rule lo)
      show "n < 2 ^ nat (ndigits 2 n)"
        by (subst k2) (rule hi)
    qed
  qed
qed

lemma ilog_2_int:
  assumes "0 < n"
  shows "0 \<le> ilog 2 n 1" and "2 ^ nat (ilog 2 n 1) \<le> n" and "n < 2 ^ Suc (nat (ilog 2 n 1))"
proof -
  from ndigits_bounds [OF assms]
  have b: "0 < ndigits 2 n" "2 ^ nat (ndigits 2 n - 1) \<le> n" "n < 2 ^ nat (ndigits 2 n)"
    by auto
  have one: "ndigits 2 1 = 1"
    by (simp add: ndigits_pos ndigits_nonpos)
  have "ilog 2 n 1 = ndigits 2 n - 1"
    using b by (simp add: ilog_def one Let_def)
  moreover have "Suc (nat (ndigits 2 n - 1)) = nat (ndigits 2 n)"
    using b(1) by simp
  ultimately show "0 \<le> ilog 2 n 1" and "2 ^ nat (ilog 2 n 1) \<le> n"
    and "n < 2 ^ Suc (nat (ilog 2 n 1))"
    using b by simp_all
qed

lemma rne_bounds: "0 < d \<Longrightarrow> n div d \<le> rne n d \<and> rne n d \<le> n div d + 1"
  by (simp add: rne_def Let_def)

lemma div_times_le: "0 < d \<Longrightarrow> a div d * d \<le> (a::int)"
  using div_mult_mod_eq [of a d] pos_mod_sign [of d a] by linarith

lemma div_lower: "0 < d \<Longrightarrow> q * d \<le> a \<Longrightarrow> q \<le> a div (d::int)"
  by (metis nonzero_mult_div_cancel_right order_less_irrefl zdiv_mono1)

lemma div_upper:
  assumes "0 < d" and "a < q * d"
  shows "a div (d::int) < q"
proof (rule ccontr)
  assume "\<not> a div d < q"
  then have "q \<le> a div d" by simp
  then have "q * d \<le> a div d * d"
    using assms(1) by (simp add: mult_right_mono)
  also have "\<dots> \<le> a"
    using assms(1) by (rule div_times_le)
  finally show False
    using assms(2) by simp
qed

lemma odd_below_pow2:
  assumes "odd m" and "\<bar>m\<bar> \<le> 2 ^ 53"
  shows "\<bar>m::int\<bar> < 2 ^ 53"
proof -
  have "even ((2::int) ^ 53)"
    by simp
  then have "m \<noteq> 2 ^ 53" and "m \<noteq> - (2 ^ 53)"
    using assms(1) by auto
  with assms(2) show ?thesis by linarith
qed

lemma float64_of_int_large:
  assumes "2 ^ 53 \<le> \<bar>a\<bar>"
  shows "\<exists>m e. float64_of_int a = Dy m e \<and> odd m \<and> \<bar>m\<bar> < 2 ^ 53 \<and> 0 \<le> e
           \<and> (0 < a \<longrightarrow> 2 ^ 53 \<le> m * 2 ^ nat e) \<and> (a < 0 \<longrightarrow> m * 2 ^ nat e < 0)"
proof -
  define L where "L = ilog 2 \<bar>a\<bar> 1"
  define s where "s = L - 52"
  define d :: int where "d = 2 ^ nat s"
  define mant where "mant = rne a d"
  have pos: "0 < \<bar>a\<bar>" and nz: "a \<noteq> 0"
    using assms by auto
  from ilog_2_int [OF pos]
  have L: "0 \<le> L" "2 ^ nat L \<le> \<bar>a\<bar>" "\<bar>a\<bar> < 2 ^ Suc (nat L)"
    by (simp_all add: L_def)
  have "(2::int) ^ 53 < 2 ^ Suc (nat L)"
    using assms L(3) by linarith
  then have "53 < Suc (nat L)"
    using power_less_imp_less_exp [of "2::int" 53 "Suc (nat L)"] by simp
  then have s1: "1 \<le> s"
    by (simp add: s_def)
  have natL: "nat L = 52 + nat s"
    using s1 by (simp add: s_def)
  have dpos: "0 < d"
    by (simp add: d_def)
  have d2: "2 \<le> d"
  proof -
    have "(2::int) ^ 1 \<le> 2 ^ nat s"
      using s1 by (intro power_increasing) auto
    then show ?thesis by (simp add: d_def)
  qed
  have lo: "2 ^ 52 * d \<le> \<bar>a\<bar>"
    using L(2) by (simp add: natL power_add d_def)
  have hi: "\<bar>a\<bar> < 2 ^ 53 * d"
    using L(3) by (simp add: natL power_add d_def)
  have f: "float64_of_int a = normalize mant s"
    using nz s1 by (simp add: float64_of_int_def round_rat_def L_def s_def mant_def d_def Let_def)
  have rb: "a div d \<le> mant" "mant \<le> a div d + 1"
    using rne_bounds [OF dpos, of a] by (simp_all add: mant_def)
  have mant_bounds: "(0 < a \<longrightarrow> 2 ^ 52 \<le> mant \<and> mant \<le> 2 ^ 53)
                     \<and> (a < 0 \<longrightarrow> - (2 ^ 53) \<le> mant \<and> mant \<le> - (2 ^ 52) + 1)"
  proof (intro conjI impI)
    assume "0 < a"
    then have "2 ^ 52 * d \<le> a" "a < 2 ^ 53 * d"
      using lo hi by simp_all
    then have "2 ^ 52 \<le> a div d" "a div d < 2 ^ 53"
      using dpos by (auto intro: div_lower div_upper)
    then show "2 ^ 52 \<le> mant" "mant \<le> 2 ^ 53"
      using rb by linarith+
  next
    assume "a < 0"
    then have "- (2 ^ 53) * d \<le> a" "a < (- (2 ^ 52) + 1) * d"
      using lo hi dpos by (simp_all add: algebra_simps)
    then have "- (2 ^ 53) \<le> a div d" "a div d < - (2 ^ 52) + 1"
      using dpos by (auto intro: div_lower div_upper)
    then show "- (2 ^ 53) \<le> mant" "mant \<le> - (2 ^ 52) + 1"
      using rb by linarith+
  qed
  have mnz: "mant \<noteq> 0"
    using mant_bounds nz by (cases "0 < a") auto
  obtain m e where me: "normalize mant s = Dy m e"
    by (cases "normalize mant s") auto
  from normalize_spec [OF mnz me]
  have m: "odd m" and se: "s \<le> e" and mm: "mant = m * 2 ^ nat (e - s)"
    by auto
  have e0: "0 \<le> e"
    using s1 se by simp
  have "nat e = nat (e - s) + nat s"
    using s1 se by simp
  then have val: "m * 2 ^ nat e = mant * d"
    by (simp add: mm d_def power_add)
  have p1: "(1::int) \<le> 2 ^ nat (e - s)"
    by simp
  have "\<bar>m\<bar> * 1 \<le> \<bar>m\<bar> * 2 ^ nat (e - s)"
    using p1 by (intro mult_left_mono) auto
  then have "\<bar>m\<bar> \<le> \<bar>mant\<bar>"
    by (simp add: mm abs_mult)
  moreover have "\<bar>mant\<bar> \<le> 2 ^ 53"
    using mant_bounds nz by (cases "0 < a") auto
  ultimately have mlt: "\<bar>m\<bar> < 2 ^ 53"
    using m by (intro odd_below_pow2) auto
  have big: "2 ^ 53 \<le> m * 2 ^ nat e" if "0 < a"
  proof -
    have "2 ^ 52 \<le> mant"
      using that mant_bounds by simp
    then have "2 ^ 52 * 2 \<le> mant * d"
      using d2 by (intro mult_mono) auto
    then show ?thesis
      by (simp add: val)
  qed
  have neg: "m * 2 ^ nat e < 0" if "a < 0"
  proof -
    have "mant < 0"
      using that mant_bounds by simp
    then have "mant * d < 0"
      using dpos by (simp add: mult_less_0_iff)
    then show ?thesis
      by (simp add: val)
  qed
  show ?thesis
    using f me m mlt e0 big neg by auto
qed

lemma float64_of_int_shape:
  assumes "a \<noteq> 0"
  shows "\<exists>m e. float64_of_int a = Dy m e \<and> odd m \<and> \<bar>m\<bar> < 2 ^ 53 \<and> 0 \<le> e
           \<and> (a \<le> 16 \<longrightarrow> m * 2 ^ nat e = a \<or> m * 2 ^ nat e < 0)
           \<and> (240 \<le> a \<longrightarrow> m * 2 ^ nat e = a \<or> 2 ^ 53 \<le> m * 2 ^ nat e)"
proof (cases "\<bar>a\<bar> < 2 ^ 53")
  case True
  obtain m e where me: "normalize a 0 = Dy m e"
    by (cases "normalize a 0") auto
  from normalize_spec [OF assms me]
  have m: "odd m" and e: "0 \<le> e" and a: "a = m * 2 ^ nat e"
    by auto
  have "(1::int) \<le> 2 ^ nat e"
    by simp
  then have "\<bar>m\<bar> * 1 \<le> \<bar>m\<bar> * 2 ^ nat e"
    by (intro mult_left_mono) auto
  then have "\<bar>m\<bar> \<le> \<bar>a\<bar>"
    by (simp add: a abs_mult)
  then have "\<bar>m\<bar> < 2 ^ 53"
    using True by linarith
  moreover have "float64_of_int a = Dy m e"
    using assms True me by (simp add: float64_of_int_exact)
  ultimately show ?thesis
    using m e a by auto
next
  case False
  then have "2 ^ 53 \<le> \<bar>a\<bar>" by simp
  from float64_of_int_large [OF this]
  obtain m e where "float64_of_int a = Dy m e" "odd m" "\<bar>m\<bar> < 2 ^ 53" "0 \<le> e"
    "0 < a \<longrightarrow> 2 ^ 53 \<le> m * 2 ^ nat e" "a < 0 \<longrightarrow> m * 2 ^ nat e < 0"
    by blast
  then have "float64_of_int a = Dy m e \<and> odd m \<and> \<bar>m\<bar> < 2 ^ 53 \<and> 0 \<le> e
           \<and> (a \<le> 16 \<longrightarrow> m * 2 ^ nat e = a \<or> m * 2 ^ nat e < 0)
           \<and> (240 \<le> a \<longrightarrow> m * 2 ^ nat e = a \<or> 2 ^ 53 \<le> m * 2 ^ nat e)"
    using False by auto
  then show ?thesis
    by blast
qed

subsection \<open>Ephemeral-storage reservation\<close>

lemma clamp_zero:
  "math_Min (float64_lit 15 1)
     (math_Max (float64_lit 1 1) (fdiv (float64_of_int 0) (float64_lit 16 1))) = Dy 1 0"
  by code_simp

lemma format_1: "formatStorageSize (Dy 1 0) = Inr ''1Gi''"
  by code_simp

lemma format_15: "formatStorageSize (Dy 15 0) = Inr ''15Gi''"
  by code_simp

lemma clamp_16:
  "math_Min (float64_lit 15 1)
     (math_Max (float64_lit 1 1) (fdiv (float64_of_int 16) (float64_lit 16 1))) = Dy 1 0"
  by code_simp

lemma clamp_240:
  "math_Min (float64_lit 15 1)
     (math_Max (float64_lit 1 1) (fdiv (float64_of_int 240) (float64_lit 16 1))) = Dy 15 0"
  by code_simp

lemma clamp_up:
  assumes "a \<le> 16"
  shows "math_Min (float64_lit 15 1)
           (math_Max (float64_lit 1 1) (fdiv (float64_of_int a) (float64_lit 16 1))) = Dy 1 0"
proof -
  consider "a = 0" | "a = 16" | "a \<noteq> 0" "a < 16"
    using assms by linarith
  then show ?thesis
  proof cases
    case 1
    then show ?thesis by (simp add: clamp_zero)
  next
    case 2
    then show ?thesis by (simp add: clamp_16)
  next
    case 3
    from float64_of_int_shape [OF 3(1)] assms
    obtain m e where f: "float64_of_int a = Dy m e" and m: "odd m" "\<bar>m\<bar> < 2 ^ 53" and e: "0 \<le> e"
      and v: "m * 2 ^ nat e = a \<or> m * 2 ^ nat e < 0"
      by blast
    have x: "fdiv (float64_of_int a) (float64_lit 16 1) = Dy m (e - 4)"
      using m e by (simp add: f fdiv_16_odd)
    have "\<not> 16 \<le> m * 2 ^ nat e"
      using v 3(2) by auto
    then have "\<not> fle (Dy 1 0) (Dy m (e - 4))"
      using fle_sixteenths_value(2) [OF e, of 1 m] by simp
    then show ?thesis
      by (simp add: x lit_1 lit_15 math_Max_def math_Min_def)
  qed
qed

lemma clamp_down:
  assumes "240 \<le> a"
  shows "math_Min (float64_lit 15 1)
           (math_Max (float64_lit 1 1) (fdiv (float64_of_int a) (float64_lit 16 1))) = Dy 15 0"
proof (cases "a = 240")
  case True
  then show ?thesis by (simp add: clamp_240)
next
  case False
  have nz: "a \<noteq> 0"
    using assms by simp
  from float64_of_int_shape [OF nz] assms
  obtain m e where f: "float64_of_int a = Dy m e" and m: "odd m" "\<bar>m\<bar> < 2 ^ 53" and e: "0 \<le> e"
    and v: "m * 2 ^ nat e = a \<or> 2 ^ 53 \<le> m * 2 ^ nat e"
    by blast
  have x: "fdiv (float64_of_int a) (float64_lit 16 1) = Dy m (e - 4)"
    using m e by (simp add: f fdiv_16_odd)
  have big: "240 < m * 2 ^ nat e"
    using v assms False by auto
  have "fle (Dy 1 0) (Dy m (e - 4))"
    using fle_sixteenths_value(2) [OF e, of 1 m] big by simp
  moreover have "\<not> fle (Dy m (e - 4)) (Dy 15 0)"
    using fle_sixteenths_value(1) [OF e, of m 15] big by simp
  ultimately show ?thesis
    by (simp add: x lit_1 lit_15 math_Max_def math_Min_def)
qed

lemma getEphemeralStorageReservations_answer:
  "prov it meta = Inr out \<Longrightarrow> DescribeInstanceTypesOutput.InstanceTypes out = info # rest \<Longrightarrow>
   getEphemeralStorageReservations prov it meta =
     formatStorageSize
       (math_Min (float64_lit 15 1)
          (math_Max (float64_lit 1 1)
             (fdiv (float64_of_int (if \<not> InstanceStorageSupported info then 20
                                    else TotalSizeInGB info))
                   (float64_lit 16 1))))"
  by (simp add: getEphemeralStorageReservations_def getInstanceTypeStorage_def
      getInstanceTypeInfo_def Let_def)

lemma format_default:
  "formatStorageSize
     (math_Min (float64_lit 15 1)
        (math_Max (float64_lit 1 1) (fdiv (float64_of_int 20) (float64_lit 16 1)))) =
   Inr ''1.25Gi''"
  by code_simp

lemma format_160:
  "formatStorageSize
     (math_Min (float64_lit 15 1)
        (math_Max (float64_lit 1 1) (fdiv (float64_of_int 160) (float64_lit 16 1)))) =
   Inr ''10Gi''"
  by code_simp

lemma withStorage_answer:
  "withStorage gb it meta = Inr \<lparr>DescribeInstanceTypesOutput.InstanceTypes = [facts 4 16384 True gb]\<rparr>"
  by (simp add: withStorage_def answering_def)

text \<open>
  Claim C6. When the provider answers, the ephemeral-storage reservation is the formatted
  value of min(15, max(1, available / 16)), where the available size is the reported total
  instance-storage size in GB, or 20 when the instance type has no instance storage. So a
  type without instance storage gets "1.25Gi", every reported size of at most 16 GB gets
  "1Gi", and every reported size of at least 240 GB gets "15Gi". In particular 160 GB gives
  "10Gi", 8 GB gives "1Gi" and 400 GB gives "15Gi".
\<close>

theorem getEphemeralStorageReservations_clamped:
  "(prov it meta = Inr out \<and> DescribeInstanceTypesOutput.InstanceTypes out = info # rest \<longrightarrow>
      getEphemeralStorageReservations prov it meta =
        formatStorageSize
          (math_Min (float64_lit 15 1)
             (math_Max (float64_lit 1 1)
                (fdiv (float64_of_int (if \<not> InstanceStorageSupported info then 20
                                       else TotalSizeInGB info))
                      (float64_lit 16 1))))
      \<and> (\<not> InstanceStorageSupported info \<longrightarrow>
            getEphemeralStorageReservations prov it meta = Inr ''1.25Gi'')
      \<and> (InstanceStorageSupported info \<and> TotalSizeInGB info \<le> 16 \<longrightarrow>
            getEphemeralStorageReservations prov it meta = Inr ''1Gi'')
      \<and> (InstanceStorageSupported info \<and> 240 \<le> TotalSizeInGB info \<longrightarrow>
            getEphemeralStorageReservations prov it meta = Inr ''15Gi''))
   \<and> getEphemeralStorageReservations (withStorage 160) it' meta' = Inr ''10Gi''
   \<and> getEphemeralStorageReservations (withStorage 8) it' meta' = Inr ''1Gi''
   \<and> getEphemeralStorageReservations (withStorage 400) it' meta' = Inr ''15Gi''"
proof (intro conjI impI)
  assume a: "prov it meta = Inr out \<and> DescribeInstanceTypesOutput.InstanceTypes out = info # rest"
  then have eq: "getEphemeralStorageReservations prov it meta =
        formatStorageSize
          (math_Min (float64_lit 15 1)
             (math_Max (float64_lit 1 1)
                (fdiv (float64_of_int (if \<not> InstanceStorageSupported info then 20
                                       else TotalSizeInGB info))
                      (float64_lit 16 1))))"
    by (intro getEphemeralStorageReservations_answer) auto
  then show "getEphemeralStorageReservations prov it meta =
        formatStorageSize
          (math_Min (float64_lit 15 1)
             (math_Max (float64_lit 1 1)
                (fdiv (float64_of_int (if \<not> InstanceStorageSupported info then 20
                                       else TotalSizeInGB info))
                      (float64_lit 16 1))))" .
  show "getEphemeralStorageReservations prov it meta = Inr ''1.25Gi''"
    if "\<not> InstanceStorageSupported info"
    using that eq by (simp add: format_default)
  show "getEphemeralStorageReservations prov it meta = Inr ''1Gi''"
    if "InstanceStorageSupported info \<and> TotalSizeInGB info \<le> 16"
    using that eq by (simp add: clamp_up format_1)
  show "getEphemeralStorageReservations prov it meta = Inr ''15Gi''"
    if "InstanceStorageSupported info \<and> 240 \<le> TotalSizeInGB info"
    using that eq by (simp add: clamp_down format_15)
next
  show "getEphemeralStorageReservations (withStorage 160) it' meta' = Inr ''10Gi''"
    using getEphemeralStorageReservations_answer
            [of "withStorage 160" it' meta'
                "\<lparr>DescribeInstanceTypesOutput.InstanceTypes = [facts 4 16384 True 160]\<rparr>"
                "facts 4 16384 True 160" "[]"]
          withStorage_answer [of 160 it' meta']
    by (simp add: facts_def format_160)
  show "getEphemeralStorageReservations (withStorage 8) it' meta' = Inr ''1Gi''"
    using getEphemeralStorageReservations_answer
            [of "withStorage 8" it' meta'
                "\<lparr>DescribeInstanceTypesOutput.InstanceTypes = [facts 4 16384 True 8]\<rparr>"
                "facts 4 16384 True 8" "[]"]
          withStorage_answer [of 8 it' meta']
    by (simp add: facts_def clamp_up format_1)
  show "getEphemeralStorageReservations (withStorage 400) it' meta' = Inr ''15Gi''"
    using getEphemeralStorageReservations_answer
            [of "withStorage 400" it' meta'
                "\<lparr>DescribeInstanceTypesOutput.InstanceTypes = [facts 4 16384 True 400]\<rparr>"
                "facts 4 16384 True 400" "[]"]
          withStorage_answer [of 400 it' meta']
    by (simp add: facts_def clamp_down format_15)
qed

theorem getEphemeralStorageReservations_clamped_witness:
  "getEphemeralStorageReservations withoutStorage ''t3.large'' exampleMeta = Inr ''1.25Gi''
   \<and> getEphemeralStorageReservations (withStorage 8) ''m5d.tiny'' exampleMeta = Inr ''1Gi''
   \<and> getEphemeralStorageReservations (withStorage 400) ''m5d.huge'' exampleMeta = Inr ''15Gi''
   \<and> getEphemeralStorageReservations (withStorage 160) ''m5d.xlarge'' exampleMeta = Inr ''10Gi''"
proof -
  have p0: "withoutStorage ''t3.large'' exampleMeta =
              Inr \<lparr>DescribeInstanceTypesOutput.InstanceTypes = [facts 4 16384 False 0]\<rparr>
            \<and> DescribeInstanceTypesOutput.InstanceTypes
                \<lparr>DescribeInstanceTypesOutput.InstanceTypes = [facts 4 16384 False 0]\<rparr> =
              facts 4 16384 False 0 # []"
    by (simp add: withoutStorage_def answering_def)
  have p: "withStorage gb it exampleMeta =
              Inr \<lparr>DescribeInstanceTypesOutput.InstanceTypes = [facts 4 16384 True gb]\<rparr>
            \<and> DescribeInstanceTypesOutput.InstanceTypes
                \<lparr>DescribeInstanceTypesOutput.InstanceTypes = [facts 4 16384 True gb]\<rparr> =
              facts 4 16384 True gb # []" for gb it
    by (simp add: withStorage_answer)
  have s0: "\<not> InstanceStorageSupported (facts 4 16384 False 0)"
    by (simp add: facts_def)
  have s8: "InstanceStorageSupported (facts 4 16384 True 8) \<and> TotalSizeInGB (facts 4 16384 True 8) \<le> 16"
    by (simp add: facts_def)
  have s400: "InstanceStorageSupported (facts 4 16384 True 400)
              \<and> 240 \<le> TotalSizeInGB (facts 4 16384 True 400)"
    by (simp add: facts_def)
  have w0: "getEphemeralStorageReservations withoutStorage ''t3.large'' exampleMeta = Inr ''1.25Gi''"
    by (rule getEphemeralStorageReservations_clamped
              [of withoutStorage "''t3.large''" exampleMeta _ "facts 4 16384 False 0" "[]",
               THEN conjunct1, THEN mp, OF p0, THEN conjunct2, THEN conjunct1, THEN mp, OF s0])
  have w8: "getEphemeralStorageReservations (withStorage 8) ''m5d.tiny'' exampleMeta = Inr ''1Gi''"
    by (rule getEphemeralStorageReservations_clamped
              [of "withStorage 8" "''m5d.tiny''" exampleMeta _ "facts 4 16384 True 8" "[]",
               THEN conjunct1, THEN mp, OF p, THEN conjunct2, THEN conjunct2, THEN conjunct1,
               THEN mp, OF s8])
  have w400: "getEphemeralStorageReservations (withStorage 400) ''m5d.huge'' exampleMeta = Inr ''15Gi''"
    by (rule getEphemeralStorageReservations_clamped
              [of "withStorage 400" "''m5d.huge''" exampleMeta _ "facts 4 16384 True 400" "[]",
               THEN conjunct1, THEN mp, OF p, THEN conjunct2, THEN conjunct2, THEN conjunct2,
               THEN mp, OF s400])
  have w160: "getEphemeralStorageReservations (withStorage 160) ''m5d.xlarge'' exampleMeta = Inr ''10Gi''"
    by (rule getEphemeralStorageReservations_clamped
              [of _ _ _ _ _ _ "''m5d.xlarge''" exampleMeta, THEN conjunct2, THEN conjunct1])
  show ?thesis
    using w0 w8 w400 w160 by (intro conjI)
qed

end
